theory Spec2Isabelle
  imports Complex_Main
begin

section \<open>Conventions of the embedding\<close>

text \<open>
  The development embeds the geodetic module \<^verbatim>\<open>cruntils/gis.py\<close>.

  \<^item> A Python \<^verbatim>\<open>float\<close> is read as a real number.  Outside the section on the
    great-circle distance every arithmetic operation is the exact operation on reals:
    statements there are statements about the formulas the code evaluates, and the
    rounding of IEEE arithmetic is not part of the model.  In \<^verbatim>\<open>DistanceBetween\<close>
    rounded intermediate values decide whether a square root is defined, so there each
    operation rounds its exact result to the nearest binary64 number.
  \<^item> A Python exception is a value of \<open>py_error\<close>; a function that can raise returns
    \<open>py_error + 'a\<close> with \<open>Inl\<close> for the exception.
  \<^item> Functions of the standard library (\<^verbatim>\<open>math.sqrt\<close>,
    \<^verbatim>\<open>math.atan2\<close>, \<^verbatim>\<open>str.split\<close>, \<^verbatim>\<open>float\<close>, \<^verbatim>\<open>round\<close>, list
    indexing) are given by definitions that follow the Python documentation, with their
    domain errors written out.
\<close>

datatype py_error =
    IndexError | ValueError | ZeroDivisionError | UnboundLocalError | TypeError | AttributeError

section \<open>Enumerations of the module\<close>

datatype ELatLon = Lat | Lon

datatype ECoordFormat = LatLonRad | LatLonDd | LatLonDms

datatype EReferenceEllipsoid = Airy1830 | Wgs84

section \<open>The helper module \<^verbatim>\<open>utils\<close>\<close>

text \<open>
  Modelled from the spec: \<^verbatim>\<open>utils.DegToRad\<close> and \<^verbatim>\<open>utils.RadToDeg\<close>; the module
  \<^verbatim>\<open>cruntils/utils.py\<close> is imported by \<^verbatim>\<open>gis.py\<close> and is not part of the sources.
  The spec (4.1) calls them the standard conversions, without validation.
\<close>

definition DegToRad :: "real \<Rightarrow> real" where
  "DegToRad deg = deg * pi / 180"

definition RadToDeg :: "real \<Rightarrow> real" where
  "RadToDeg rad = rad * 180 / pi"

text \<open>
  Modelled from the spec: \<^verbatim>\<open>utils.Cos5\<close>, \<^verbatim>\<open>utils.Tan2\<close> and \<^verbatim>\<open>utils.Tan4\<close>,
  missing with the same module.  The spec (4.1) describes them as the power helpers
  \<open>cos^5\<close>, \<open>tan^2\<close> and \<open>tan^4\<close> of an angle in radians.
\<close>

definition Cos5 :: "real \<Rightarrow> real" where
  "Cos5 x = cos x ^ 5"

definition Tan2 :: "real \<Rightarrow> real" where
  "Tan2 x = tan x ^ 2"

definition Tan4 :: "real \<Rightarrow> real" where
  "Tan4 x = tan x ^ 4"

section \<open>Python built-ins used by the module\<close>

subsection \<open>Numbers\<close>

text \<open>\<^verbatim>\<open>int(x)\<close> on a float truncates towards zero.\<close>

definition py_int :: "real \<Rightarrow> int" where
  "py_int x = (if 0 \<le> x then \<lfloor>x\<rfloor> else \<lceil>x\<rceil>)"

text \<open>\<^verbatim>\<open>x % y\<close> on floats has the sign of the divisor.\<close>

definition py_fmod :: "real \<Rightarrow> real \<Rightarrow> real" where
  "py_fmod x y = x - y * of_int \<lfloor>x / y\<rfloor>"

text \<open>
  \<^verbatim>\<open>round(x, n)\<close> rounds to \<open>n\<close> decimal places, a tie going to the even
  neighbour.
\<close>

definition round_half_even :: "real \<Rightarrow> int" where
  "round_half_even x =
     (let f = \<lfloor>x\<rfloor>; d = x - of_int f
      in if d < 1 / 2 then f
         else if 1 / 2 < d then f + 1
         else if even f then f else f + 1)"

definition py_round :: "real \<Rightarrow> nat \<Rightarrow> real" where
  "py_round x n = of_int (round_half_even (x * 10 ^ n)) / 10 ^ n"

text \<open>\<^verbatim>\<open>math.sqrt\<close> raises \<^verbatim>\<open>ValueError\<close> on a negative argument.\<close>

definition py_sqrt :: "real \<Rightarrow> py_error + real" where
  "py_sqrt x = (if x < 0 then Inl ValueError else Inr (sqrt x))"

text \<open>
  \<^verbatim>\<open>math.atan2(y, x)\<close>: the angle of the point \<open>(x, y)\<close> in \<open>(-pi, pi]\<close>, and \<open>0\<close> at
  the origin.
\<close>

definition py_atan2 :: "real \<Rightarrow> real \<Rightarrow> real" where
  "py_atan2 y x =
     (if 0 < x then arctan (y / x)
      else if x < 0 then (if 0 \<le> y then arctan (y / x) + pi else arctan (y / x) - pi)
      else if 0 < y then pi / 2
      else if y < 0 then - (pi / 2)
      else 0)"

subsection \<open>Strings\<close>

definition digit_char :: "nat \<Rightarrow> char" where
  "digit_char d = ''0123456789'' ! d"

definition is_digit :: "char \<Rightarrow> bool" where
  "is_digit c = (c \<in> set ''0123456789'')"

definition digit_val :: "char \<Rightarrow> nat" where
  "digit_val c = length (takeWhile (\<lambda>d. d \<noteq> c) ''0123456789'')"

text \<open>\<^verbatim>\<open>str(n)\<close> of an integer: its decimal digits, most significant first.\<close>

fun str_nat :: "nat \<Rightarrow> string" where
  "str_nat n = (if n < 10 then [digit_char n] else str_nat (n div 10) @ [digit_char (n mod 10)])"

declare str_nat.simps [simp del]

definition str_int :: "int \<Rightarrow> string" where
  "str_int i = (if i < 0 then CHR ''-'' # str_nat (nat (- i)) else str_nat (nat i))"

text \<open>\<^verbatim>\<open>s.rjust(w, c)\<close> pads on the left up to width \<open>w\<close>.\<close>

definition rjust :: "nat \<Rightarrow> char \<Rightarrow> string \<Rightarrow> string" where
  "rjust w c s = replicate (w - length s) c @ s"

text \<open>
  \<^verbatim>\<open>s.split(sep)\<close> with a one-character separator cuts at every occurrence, so two
  separators in a row give an empty field.
\<close>

fun split :: "char \<Rightarrow> string \<Rightarrow> string list" where
  "split sep [] = [[]]"
| "split sep (c # cs) =
     (if c = sep then [] # split sep cs
      else (case split sep cs of
              [] \<Rightarrow> [[c]]
            | w # ws \<Rightarrow> (c # w) # ws))"

text \<open>Indexing a list: negative indices count from the end, anything else out of range raises.\<close>

definition py_index :: "'a list \<Rightarrow> int \<Rightarrow> py_error + 'a" where
  "py_index xs i =
     (if 0 \<le> i \<and> i < int (length xs) then Inr (xs ! nat i)
      else if - int (length xs) \<le> i \<and> i < 0 then Inr (xs ! nat (i + int (length xs)))
      else Inl IndexError)"

text \<open>
  \<^verbatim>\<open>float(s)\<close> on plain decimal literals: an optional sign, digits, and an optional
  point followed by digits, with at least one digit in all.  Exponents, \<^verbatim>\<open>inf\<close>,
  \<^verbatim>\<open>nan\<close>, underscores and surrounding blanks, which Python accepts as well, are not
  produced by this module and are classed with the malformed strings here.
\<close>

definition nat_of_digits :: "string \<Rightarrow> nat" where
  "nat_of_digits s = foldl (\<lambda>acc c. 10 * acc + digit_val c) 0 s"

definition float_unsigned :: "string \<Rightarrow> py_error + real" where
  "float_unsigned s =
     (let ip = takeWhile is_digit s; rest = dropWhile is_digit s
      in case rest of
           [] \<Rightarrow> (if ip = [] then Inl ValueError else Inr (real (nat_of_digits ip)))
         | c # fp \<Rightarrow>
             (if c = CHR ''.'' \<and> list_all is_digit fp \<and> \<not> (ip = [] \<and> fp = [])
              then Inr (real (nat_of_digits ip) + real (nat_of_digits fp) / 10 ^ length fp)
              else Inl ValueError))"

definition py_float :: "string \<Rightarrow> py_error + real" where
  "py_float s =
     (case s of
        [] \<Rightarrow> Inl ValueError
      | c # cs \<Rightarrow>
          (if c = CHR ''-'' then map_sum id uminus (float_unsigned cs)
           else if c = CHR ''+'' then float_unsigned cs
           else float_unsigned s))"

text \<open>
  \<^verbatim>\<open>str(x)\<close> of a float that holds a multiple of \<open>10^-nd\<close> of moderate size, as
  \<^verbatim>\<open>round(x, nd)\<close> returns it: the shortest decimal that reads back as \<open>x\<close>, which
  is the integer part, a point, and the fractional digits without trailing zeros, one
  digit at least.
\<close>

definition strip_zeros :: "string \<Rightarrow> string" where
  "strip_zeros s = rev (dropWhile (\<lambda>c. c = CHR ''0'') (rev s))"

definition float_str :: "nat \<Rightarrow> real \<Rightarrow> string" where
  "float_str nd x =
     (let k = nat \<lfloor>\<bar>x\<bar> * 10 ^ nd\<rfloor>;
          ip = str_nat (k div 10 ^ nd);
          fp = strip_zeros (rjust nd (CHR ''0'') (str_nat (k mod 10 ^ nd)))
      in (if x < 0 then ''-'' else '''') @ ip @ ''.'' @ (if fp = [] then ''0'' else fp))"

section \<open>Degrees, minutes and seconds\<close>

text \<open>
  \<^verbatim>\<open>DmsToDd\<close>: the four fields are read in order, so the first missing or malformed
  field decides the exception.
\<close>

definition DmsToDd :: "string \<Rightarrow> py_error + real" where
  "DmsToDd dms_str =
     (let parts = split (CHR '' '') dms_str
      in case py_index parts 0 of Inl e \<Rightarrow> Inl e | Inr p0 \<Rightarrow>
         case py_float p0 of Inl e \<Rightarrow> Inl e | Inr deg \<Rightarrow>
         case py_index parts 1 of Inl e \<Rightarrow> Inl e | Inr p1 \<Rightarrow>
         case py_float p1 of Inl e \<Rightarrow> Inl e | Inr m \<Rightarrow>
         case py_index parts 2 of Inl e \<Rightarrow> Inl e | Inr p2 \<Rightarrow>
         case py_float p2 of Inl e \<Rightarrow> Inl e | Inr s \<Rightarrow>
         case py_index parts 3 of Inl e \<Rightarrow> Inl e | Inr p3 \<Rightarrow>
           (let mins = m / 60; sec = s / 3600; dd = deg + mins + sec
            in if p3 = ''S'' \<or> p3 = ''W'' then Inr (dd * (- 1)) else Inr dd))"

text \<open>
  \<^verbatim>\<open>DdToDms\<close>.  The argument \<open>lat_or_lon\<close> ranges over the two members of
  \<^verbatim>\<open>ELatLon\<close>, for which both \<^verbatim>\<open>if\<close>/\<^verbatim>\<open>elif\<close> chains bind their variable.
\<close>

definition DdToDms :: "real \<Rightarrow> ELatLon \<Rightarrow> string" where
  "DdToDms dd lat_or_lon =
     (let dd_abs = \<bar>dd\<bar>;
          deg = py_int dd_abs;
          mins = py_int ((dd_abs - of_int deg) * 60);
          sec = (dd_abs - of_int deg - of_int mins / 60) * 3600;
          deg_str = (case lat_or_lon of
                       Lat \<Rightarrow> rjust 2 (CHR ''0'') (str_int deg)
                     | Lon \<Rightarrow> rjust 3 (CHR ''0'') (str_int deg));
          suffix = (case lat_or_lon of
                      Lat \<Rightarrow> (if dd < 0 then ''S'' else ''N'')
                    | Lon \<Rightarrow> (if dd < 0 then ''W'' else ''E''))
      in deg_str @ '' '' @ str_int mins @ '' '' @ float_str 4 (py_round sec 4) @ '' '' @ suffix)"

section \<open>Ellipsoids\<close>

definition wgs84_earth_equatorial_radius_m :: real where
  "wgs84_earth_equatorial_radius_m = 6378137"

definition GetAiry1830 :: "real \<times> real" where
  "GetAiry1830 = (6377563.396, 6356256.909)"

definition GetWgs84 :: "real \<times> real" where
  "GetWgs84 = (6378137.000, 6356752.3141)"

text \<open>
  Both eccentricities divide by the square of an axis; the module calls them with the
  axes of the two ellipsoids above only, which are not zero.
\<close>

definition Eccentricity1 :: "real \<Rightarrow> real \<Rightarrow> real" where
  "Eccentricity1 a b = (a ^ 2 - b ^ 2) / a ^ 2"

definition Eccentricity2 :: "real \<Rightarrow> real \<Rightarrow> real" where
  "Eccentricity2 a b = (a ^ 2 - b ^ 2) / b ^ 2"

text \<open>
  A Python argument can be any object.  The parameter \<^verbatim>\<open>ellipsoid_ref\<close> is compared
  with the two members of \<^verbatim>\<open>EReferenceEllipsoid\<close>; \<open>OtherObject\<close> stands for every
  object that is neither of them.  The chain
  \<^verbatim>\<open>if ellipsoid_ref == Airy1830: a, b = ... elif ellipsoid_ref == Wgs84: a, b = ...\<close>
  binds \<^verbatim>\<open>a, b\<close> for a member and leaves them unbound otherwise (\<open>None\<close>).
\<close>

datatype ellipsoid_arg = Ellipsoid EReferenceEllipsoid | OtherObject

definition ellipsoid_params :: "ellipsoid_arg \<Rightarrow> (real \<times> real) option" where
  "ellipsoid_params ellipsoid_ref =
     (if ellipsoid_ref = Ellipsoid Airy1830 then Some GetAiry1830
      else if ellipsoid_ref = Ellipsoid Wgs84 then Some GetWgs84
      else None)"

section \<open>Sequencing of operations that can raise\<close>

definition py_bind :: "py_error + 'a \<Rightarrow> ('a \<Rightarrow> py_error + 'b) \<Rightarrow> py_error + 'b" where
  "py_bind r f = (case r of Inl e \<Rightarrow> Inl e | Inr v \<Rightarrow> f v)"

text \<open>Division of floats raises \<^verbatim>\<open>ZeroDivisionError\<close> on a zero divisor.\<close>

definition py_div :: "real \<Rightarrow> real \<Rightarrow> py_error + real" where
  "py_div x y = (if y = 0 then Inl ZeroDivisionError else Inr (x / y))"

section \<open>The great-circle distance\<close>

text \<open>
  Binary64 arithmetic.  \<open>rnd x\<close> is the number with a significand of 53 bits nearest
  to \<open>x\<close>, a tie going to the even significand; IEEE 754 defines \<^verbatim>\<open>+\<close>, \<^verbatim>\<open>-\<close>,
  \<^verbatim>\<open>*\<close>, \<^verbatim>\<open>/\<close> and the square root as the exact operation followed by this rounding.
  The exponent is not bounded: overflow, underflow, infinities and NaN are outside the
  model.
\<close>

definition rnd :: "real \<Rightarrow> real" where
  "rnd x =
     (if x = 0 then 0
      else let u = 2 powr (of_int \<lfloor>log 2 \<bar>x\<bar>\<rfloor> - 52)
           in of_int (round_half_even (x / u)) * u)"

definition fl_add :: "real \<Rightarrow> real \<Rightarrow> real" where
  "fl_add x y = rnd (x + y)"

definition fl_sub :: "real \<Rightarrow> real \<Rightarrow> real" where
  "fl_sub x y = rnd (x - y)"

definition fl_mul :: "real \<Rightarrow> real \<Rightarrow> real" where
  "fl_mul x y = rnd (x * y)"

text \<open>The only divisor in \<^verbatim>\<open>DistanceBetween\<close> is the literal \<open>2\<close>, so the division cannot raise.\<close>

definition fl_div :: "real \<Rightarrow> real \<Rightarrow> real" where
  "fl_div x y = rnd (x / y)"

definition fl_sqrt :: "real \<Rightarrow> py_error + real" where
  "fl_sqrt x = (if x < 0 then Inl ValueError else Inr (rnd (sqrt x)))"

text \<open>
  The sine, cosine and two-argument arc tangent come from the C library of the platform,
  which IEEE 754 does not fix, and \<^verbatim>\<open>utils.DegToRad\<close> is not part of the sources: the
  four functions are parameters of \<^verbatim>\<open>DistanceBetween\<close>.
\<close>

record float_lib =
  lib_sin :: "real \<Rightarrow> real"
  lib_cos :: "real \<Rightarrow> real"
  lib_atan2 :: "real \<Rightarrow> real \<Rightarrow> real"
  lib_DegToRad :: "real \<Rightarrow> real"

definition DistanceBetween ::
  "float_lib \<Rightarrow> real \<Rightarrow> real \<Rightarrow> real \<Rightarrow> real \<Rightarrow> bool \<Rightarrow> py_error + real" where
  "DistanceBetween L lat_1 lon_1 lat_2 lon_2 degrees =
     (let lat_1 = (if degrees then lib_DegToRad L lat_1 else lat_1);
          lon_1 = (if degrees then lib_DegToRad L lon_1 else lon_1);
          lat_2 = (if degrees then lib_DegToRad L lat_2 else lat_2);
          lon_2 = (if degrees then lib_DegToRad L lon_2 else lon_2);
          delta_lat = fl_sub lat_2 lat_1;
          delta_lon = fl_sub lon_2 lon_1;
          a = fl_add
                (fl_mul (lib_sin L (fl_div delta_lat 2)) (lib_sin L (fl_div delta_lat 2)))
                (fl_mul
                   (fl_mul (fl_mul (lib_cos L lat_1) (lib_cos L lat_2))
                      (lib_sin L (fl_div delta_lon 2)))
                   (lib_sin L (fl_div delta_lon 2)))
      in py_bind (fl_sqrt a) (\<lambda>sqrt_a.
         py_bind (fl_sqrt (fl_sub 1 a)) (\<lambda>sqrt_1a.
         let c = fl_mul 2 (lib_atan2 L sqrt_a sqrt_1a);
             d = fl_mul wgs84_earth_equatorial_radius_m c
         in Inr d)))"


section \<open>Geodetic and Cartesian coordinates\<close>

definition CartesianToLatLon ::
  "real \<Rightarrow> real \<Rightarrow> real \<Rightarrow> ellipsoid_arg \<Rightarrow> py_error + real \<times> real \<times> real" where
  "CartesianToLatLon x y z ellipsoid_ref =
     (case ellipsoid_params ellipsoid_ref of
        None \<Rightarrow> Inl UnboundLocalError
      | Some (a, b) \<Rightarrow>
          (let e2 = Eccentricity1 a b;
               e22 = Eccentricity2 a b;
               p = sqrt (x ^ 2 + y ^ 2);
               R = sqrt (p ^ 2 + z ^ 2)
           in py_bind (py_div (b * z) (a * p)) (\<lambda>q1.
              py_bind (py_div b R) (\<lambda>q2.
              let tan_beta = q1 * ((1 + e22) * q2);
                  beta = arctan tan_beta;
                  tan_lat_prime_top = z + (e22 * b * sin beta ^ 3);
                  tan_lat_prime_bot = p - (e2 * a * cos beta ^ 3)
              in py_bind (py_div tan_lat_prime_top tan_lat_prime_bot) (\<lambda>tan_lat_prime.
                 let lat_rad = arctan tan_lat_prime
                 in py_bind (py_div y x) (\<lambda>tan_lon_prime.
                    let lon_rad = arctan tan_lon_prime
                    in py_bind (py_sqrt (1 - (e2 * sin lat_rad ^ 2))) (\<lambda>w.
                       py_bind (py_div a w) (\<lambda>v.
                       py_bind (py_div (a ^ 2) v) (\<lambda>q3.
                       let height = (p * cos lat_rad) + (z * sin lat_rad) - q3;
                           lat = RadToDeg lat_rad;
                           lon = RadToDeg lon_rad
                       in Inr (lat, lon, height))))))))))"

text \<open>
  The latitude and longitude handed to \<^verbatim>\<open>LatLonHeightToEcefCartesian\<close> are numbers
  (radians or decimal degrees) or strings (degrees, minutes, seconds), according to
  \<^verbatim>\<open>coord_format\<close>.  A number where a string is split raises \<^verbatim>\<open>AttributeError\<close>, a
  string where a number is expected raises \<^verbatim>\<open>TypeError\<close>.
\<close>

datatype coord_arg = Num real | Str string

definition coord_to_rad :: "ECoordFormat \<Rightarrow> coord_arg \<Rightarrow> py_error + coord_arg" where
  "coord_to_rad coord_format c =
     (if coord_format = LatLonDd then
        (case c of Num d \<Rightarrow> Inr (Num (DegToRad d)) | Str s \<Rightarrow> Inl TypeError)
      else if coord_format = LatLonDms then
        (case c of
           Num d \<Rightarrow> Inl AttributeError
         | Str s \<Rightarrow> py_bind (DmsToDd s) (\<lambda>d. Inr (Num (DegToRad d))))
      else Inr c)"

definition coord_num :: "coord_arg \<Rightarrow> py_error + real" where
  "coord_num c = (case c of Num r \<Rightarrow> Inr r | Str s \<Rightarrow> Inl TypeError)"

text \<open>
  The function prints before it goes on, so its result is the list of printed lines
  together with the returned triple or the exception.
\<close>

definition LatLonHeightToEcefCartesian ::
  "coord_arg \<Rightarrow> coord_arg \<Rightarrow> real \<Rightarrow> ECoordFormat \<Rightarrow> ellipsoid_arg
     \<Rightarrow> string list \<times> (py_error + real \<times> real \<times> real)" where
  "LatLonHeightToEcefCartesian lat lon height coord_format ellipsoid_ref =
     (case py_bind (coord_to_rad coord_format lat) (\<lambda>lat.
           py_bind (coord_to_rad coord_format lon) (\<lambda>lon. Inr (lat, lon))) of
        Inl e \<Rightarrow> ([], Inl e)
      | Inr (lat, lon) \<Rightarrow>
          (case ellipsoid_params ellipsoid_ref of
             None \<Rightarrow> ([''Invalid ellipsoid!''], Inl UnboundLocalError)
           | Some (a, b) \<Rightarrow>
               ([],
                let e2 = Eccentricity1 a b
                in py_bind (coord_num lat) (\<lambda>lat.
                   py_bind (py_sqrt (1 - (e2 * sin lat ^ 2))) (\<lambda>w.
                   py_bind (py_div a w) (\<lambda>v.
                   py_bind (coord_num lon) (\<lambda>lon.
                   let x = (v + height) * cos lat * cos lon;
                       y = (v + height) * cos lat * sin lon;
                       z = (((1 - e2) * v) + height) * sin lat
                   in Inr (x, y, z))))))))"

section \<open>The national grid\<close>

definition LatLonToGridEastNorth :: "real \<Rightarrow> real \<Rightarrow> real \<times> real" where
  "LatLonToGridEastNorth lat lon =
     (let F0 = 0.9996012717;
          lat_0 = DegToRad 49;
          lon_0 = DegToRad (- 2);
          E0 = 400000;
          N0 = - 100000;
          (a, b) = GetAiry1830;
          e2 = Eccentricity1 a b;
          lat = DegToRad lat;
          lon = DegToRad lon;
          n = (a - b) / (a + b);
          v = a * F0 * (1 - (e2 * sin lat ^ 2)) powr (- 0.5);
          p = a * F0 * (1 - e2) * (1 - (e2 * sin lat ^ 2)) powr (- 1.5);
          n2 = (v / p) - 1;
          m1 = (1 + n + ((5 / 4) * n ^ 2) + ((5 / 4) * n ^ 3)) * (lat - lat_0);
          m2_1 = ((3 * n) + (3 * n ^ 2) + ((21 / 8) * n ^ 3));
          m2_2 = sin (lat - lat_0);
          m2_3 = cos (lat + lat_0);
          m2 = m2_1 * m2_2 * m2_3;
          m3_1 = ((15 / 8) * n ^ 2) + ((15 / 8) * n ^ 3);
          m3_2 = sin (2 * (lat - lat_0)) * cos (2 * (lat + lat_0));
          m3_3 = (35 / 24) * n ^ 3 * sin (3 * (lat - lat_0)) * cos (3 * (lat + lat_0));
          m3 = (m3_1 * m3_2) - m3_3;
          m = b * F0 * (m1 - m2 + m3);
          I = m + N0;
          II = (v / 2) * sin lat * cos lat;
          III = (v / 24) * sin lat * cos lat ^ 3 * (5 - (tan lat ^ 2) + (9 * n2));
          IIIA = (v / 720) * sin lat * Cos5 lat * (61 - (58 * Tan2 lat) + Tan4 lat);
          IV = v * cos lat;
          V = (v / 6) * cos lat ^ 3 * ((v / p) - tan lat ^ 2);
          VI = (v / 120) * cos lat ^ 5
               * (5 - (18 * Tan2 lat) + Tan4 lat + (14 * n2) - (58 * Tan2 lat * n2));
          N = I + (II * (lon - lon_0) ^ 2) + (III * (lon - lon_0) ^ 4)
              + (IIIA * (lon - lon_0) ^ 6);
          E = E0 + (IV * (lon - lon_0)) + (V * ((lon - lon_0) ^ 3) + (VI * ((lon - lon_0) ^ 5)))
      in (E, N))"

text \<open>
  \<^verbatim>\<open>GridEastNorthToLatLon\<close>.  The body of the \<^verbatim>\<open>while\<close> loop computes \<open>m\<close> from the
  northing and the current \<open>lat_dash\<close> (\<open>grid_m\<close>) and then adds the first estimate
  to \<open>lat_dash\<close> once more.  The loop may run forever, so it is a partial function: \<open>None\<close>
  is a run that never leaves the loop, \<open>Some (lat_dash, m)\<close> the variables on leaving it.
  The calls of \<^verbatim>\<open>print\<close> write to the console only and are left out.
\<close>

definition grid_m :: "real \<Rightarrow> real \<Rightarrow> real \<Rightarrow> real \<Rightarrow> real \<Rightarrow> real" where
  "grid_m ntings lat_0 b f0 lat_dash =
     (let m1 = (1 + ntings + ((5 / 4) * ntings ^ 2) + ((5 / 4) * ntings ^ 3)) * (lat_dash - lat_0);
          m2_1 = ((3 * ntings) + (3 * ntings ^ 2) + ((21 / 8) * ntings ^ 3));
          m2_2 = sin (lat_dash - lat_0);
          m2_3 = cos (lat_dash + lat_0);
          m2 = m2_1 * m2_2 * m2_3;
          m3_1 = ((15 / 8) * ntings ^ 2) + ((15 / 8) * ntings ^ 3);
          m3_2 = sin (2 * (lat_dash - lat_0)) * cos (2 * (lat_dash + lat_0));
          m3_3 = (35 / 24) * ntings ^ 3 * sin (3 * (lat_dash - lat_0))
                 * cos (3 * (lat_dash + lat_0));
          m3 = (m3_1 * m3_2) - m3_3
      in b * f0 * (m1 - m2 + m3))"

partial_function (option) grid_while ::
  "real \<Rightarrow> real \<Rightarrow> real \<Rightarrow> real \<Rightarrow> real \<Rightarrow> real \<Rightarrow> real \<Rightarrow> real \<Rightarrow> (real \<times> real) option" where
  "grid_while ntings n0 lat_0 a b f0 lat_dash m =
     (if (ntings - n0 - m) \<ge> 0.001
      then grid_while ntings n0 lat_0 a b f0
             (((ntings - n0) / (a * f0)) + lat_dash) (grid_m ntings lat_0 b f0 lat_dash)
      else Some (lat_dash, m))"

text \<open>
  The function has no \<^verbatim>\<open>return\<close> statement: when the loop ends, the call returns
  Python's \<^verbatim>\<open>None\<close>.  A returned value is an optional pair of latitude and longitude,
  \<open>None\<close> for \<^verbatim>\<open>None\<close>; the outer option is \<open>None\<close> for a call that does not return.
\<close>

definition GridEastNorthToLatLon :: "real \<Rightarrow> real \<Rightarrow> (real \<times> real) option option" where
  "GridEastNorthToLatLon ntings etings =
     (let lat_0 = DegToRad 49;
          lon_0 = DegToRad (- 2);
          e0 = 400000 :: real;
          n0 = - 100000;
          f0 = 0.9996012717;
          (a, b) = GetAiry1830;
          lat_dash = ((ntings - n0) / (a * f0)) + lat_0;
          m = 0
      in case grid_while ntings n0 lat_0 a b f0 lat_dash m of
           None \<Rightarrow> None
         | Some (lat_dash, m) \<Rightarrow> Some None)"

section \<open>Geoid heights\<close>

text \<open>
  The object holds the grid read by \<^verbatim>\<open>LoadData\<close>, a list of rows of heights, and the
  step between samples.  The data file is not part of the sources, so the grid is a
  parameter; \<open>Egm_init\<close> is the object \<^verbatim>\<open>__init__\<close> leaves behind once the rows are
  loaded.
\<close>

record Egm =
  Egm96GridHeights :: "real list list"
  StepSize :: real

definition Egm_init :: "real list list \<Rightarrow> Egm" where
  "Egm_init rows = \<lparr>Egm96GridHeights = rows, StepSize = 0.25\<rparr>"

text \<open>\<^verbatim>\<open>grid[i][j]\<close>: the row is fetched first, then the entry.\<close>

definition py_index2 :: "'a list list \<Rightarrow> int \<Rightarrow> int \<Rightarrow> py_error + 'a" where
  "py_index2 grid i j = py_bind (py_index grid i) (\<lambda>row. py_index row j)"

text \<open>The remainder \<^verbatim>\<open>x % step\<close> raises \<^verbatim>\<open>ZeroDivisionError\<close> for a zero step.\<close>

definition py_fmod_checked :: "real \<Rightarrow> real \<Rightarrow> py_error + real" where
  "py_fmod_checked x y = (if y = 0 then Inl ZeroDivisionError else Inr (py_fmod x y))"

definition GetHeight :: "Egm \<Rightarrow> real \<Rightarrow> real \<Rightarrow> py_error + real" where
  "GetHeight self lat lon =
     (let x = lon;
          y = lat
      in py_bind (py_fmod_checked x (StepSize self)) (\<lambda>rx.
         let x1 = x - rx;
             x2 = x1 + StepSize self
         in py_bind (py_fmod_checked y (StepSize self)) (\<lambda>ry.
            let y1 = y - ry;
                y2 = y1 + StepSize self
            in py_bind (py_index2 (Egm96GridHeights self)
                          (py_int (y1 / StepSize self)) (py_int (x1 / StepSize self))) (\<lambda>q11.
               py_bind (py_index2 (Egm96GridHeights self)
                          (py_int (y2 / StepSize self)) (py_int (x1 / StepSize self))) (\<lambda>q12.
               py_bind (py_index2 (Egm96GridHeights self)
                          (py_int (y1 / StepSize self)) (py_int (x2 / StepSize self))) (\<lambda>q21.
               py_bind (py_index2 (Egm96GridHeights self)
                          (py_int (y2 / StepSize self)) (py_int (x2 / StepSize self))) (\<lambda>q22.
               py_bind (py_div (x2 - x) (x2 - x1)) (\<lambda>wx2.
               py_bind (py_div (x - x1) (x2 - x1)) (\<lambda>wx1.
               let xy1 = (wx2 * q11) + (wx1 * q21);
                   xy2 = (wx2 * q12) + (wx1 * q22)
               in py_bind (py_div (y2 - y) (y2 - y1)) (\<lambda>wy2.
                  py_bind (py_div (y - y1) (y2 - y1)) (\<lambda>wy1.
                  let yx = (wy2 * xy1) + (wy1 * xy2)
                  in Inr (py_round yx 2))))))))))))"

text \<open>
  The value of the local variable \<^verbatim>\<open>a\<close> of \<^verbatim>\<open>DistanceBetween\<close>, as a function of the
  two points in radians, and the rest of the function as a function of \<^verbatim>\<open>a\<close>.
\<close>

definition fl_hav :: "float_lib \<Rightarrow> real \<Rightarrow> real \<Rightarrow> real \<Rightarrow> real \<Rightarrow> real" where
  "fl_hav L lat_1 lon_1 lat_2 lon_2 =
     fl_add
       (fl_mul (lib_sin L (fl_div (fl_sub lat_2 lat_1) 2))
          (lib_sin L (fl_div (fl_sub lat_2 lat_1) 2)))
       (fl_mul
          (fl_mul (fl_mul (lib_cos L lat_1) (lib_cos L lat_2))
             (lib_sin L (fl_div (fl_sub lon_2 lon_1) 2)))
          (lib_sin L (fl_div (fl_sub lon_2 lon_1) 2)))"

definition fl_central :: "float_lib \<Rightarrow> real \<Rightarrow> py_error + real" where
  "fl_central L a =
     py_bind (fl_sqrt a) (\<lambda>sqrt_a.
     py_bind (fl_sqrt (fl_sub 1 a)) (\<lambda>sqrt_1a.
     Inr (fl_mul wgs84_earth_equatorial_radius_m (fl_mul 2 (lib_atan2 L sqrt_a sqrt_1a)))))"

text \<open>
  The interpolation of \<^verbatim>\<open>GetHeight\<close> between the four samples, for the step \<open>0.25\<close>
  that \<^verbatim>\<open>__init__\<close> sets: the value of the local variable \<^verbatim>\<open>yx\<close>.
\<close>

definition bilinear :: "real \<Rightarrow> real \<Rightarrow> real \<Rightarrow> real \<Rightarrow> real \<Rightarrow> real \<Rightarrow> real" where
  "bilinear lat lon q11 q12 q21 q22 =
     (let x = lon; y = lat;
          x1 = x - py_fmod x 0.25; x2 = x1 + 0.25;
          y1 = y - py_fmod y 0.25; y2 = y1 + 0.25;
          xy1 = (((x2 - x) / (x2 - x1)) * q11) + (((x - x1) / (x2 - x1)) * q21);
          xy2 = (((x2 - x) / (x2 - x1)) * q12) + (((x - x1) / (x2 - x1)) * q22)
      in (((y2 - y) / (y2 - y1)) * xy1) + (((y - y1) / (y2 - y1)) * xy2))"

text \<open>
  Two polynomials in the northing that occur in \<open>grid_m\<close>: the factor of
  \<open>lat_dash - lat_0\<close> in \<^verbatim>\<open>m1\<close>, and the sum of the factors of the trigonometric terms
  of \<^verbatim>\<open>m2\<close> and \<^verbatim>\<open>m3\<close>.
\<close>

definition grid_c1 :: "real \<Rightarrow> real" where
  "grid_c1 ntings = 1 + ntings + ((5 / 4) * ntings ^ 2) + ((5 / 4) * ntings ^ 3)"

definition grid_c :: "real \<Rightarrow> real" where
  "grid_c ntings = ((3 * ntings) + (3 * ntings ^ 2) + ((21 / 8) * ntings ^ 3))
     + (((15 / 8) * ntings ^ 2) + ((15 / 8) * ntings ^ 3)) + (35 / 24) * ntings ^ 3"

text \<open>
  Values of local variables of the two conversions, as functions of the quantities they
  depend on: \<^verbatim>\<open>tan_beta\<close> and \<^verbatim>\<open>tan_lat_prime_bot\<close> of \<^verbatim>\<open>CartesianToLatLon\<close>
  in terms of the semi-axes, \<^verbatim>\<open>p\<close> and \<^verbatim>\<open>z\<close>, and the radius of curvature \<^verbatim>\<open>v\<close> of
  \<^verbatim>\<open>LatLonHeightToEcefCartesian\<close> in terms of the semi-axes and the latitude in radians.
\<close>

definition cart_tan_beta :: "real \<Rightarrow> real \<Rightarrow> real \<Rightarrow> real \<Rightarrow> real" where
  "cart_tan_beta a b p z =
     ((b * z) / (a * p)) * ((1 + Eccentricity2 a b) * (b / sqrt (p ^ 2 + z ^ 2)))"

definition cart_bot :: "real \<Rightarrow> real \<Rightarrow> real \<Rightarrow> real \<Rightarrow> real" where
  "cart_bot a b p z = p - (Eccentricity1 a b * a * cos (arctan (cart_tan_beta a b p z)) ^ 3)"

definition ecef_v :: "real \<Rightarrow> real \<Rightarrow> real \<Rightarrow> real" where
  "ecef_v a b lat = a / sqrt (1 - (Eccentricity1 a b * sin lat ^ 2))"

section \<open>Results\<close>

text \<open>
  C9.  \<^verbatim>\<open>DdToDms(51.5, ELatLon.Lat)\<close> is the string \<^verbatim>\<open>"51 30 0.0 N"\<close>: the degree
  field has two digits, the hemisphere letter of a non-negative latitude is \<^verbatim>\<open>N\<close>.
\<close>

theorem DdToDms_51_5: "DdToDms 51.5 Lat = ''51 30 0.0 N''"
  unfolding DdToDms_def Let_def py_int_def py_round_def round_half_even_def float_str_def
    str_int_def rjust_def strip_zeros_def
  by (simp add: str_nat.simps digit_char_def numeral_3_eq_3)

text \<open>
  C10.  Whenever a call of \<^verbatim>\<open>GridEastNorthToLatLon\<close> returns, it returns \<^verbatim>\<open>None\<close>:
  no path through the function hands back a latitude and longitude.
\<close>

theorem GridEastNorthToLatLon_returns_None:
  "GridEastNorthToLatLon ntings etings = Some r \<Longrightarrow> r = None"
  unfolding GridEastNorthToLatLon_def Let_def
  by (auto split: option.splits prod.splits)

theorem GridEastNorthToLatLon_returns_None_witness:
  "\<exists>r. GridEastNorthToLatLon (- 100000) 0 = Some r \<and> r = None"
proof -
  have ret: "GridEastNorthToLatLon (- 100000) 0 = Some None"
    unfolding GridEastNorthToLatLon_def Let_def GetAiry1830_def
    by (simp add: grid_while.simps)
  from GridEastNorthToLatLon_returns_None [OF ret] ret show ?thesis
    by simp
qed

subsection \<open>The great-circle distance\<close>
















lemma DistanceBetween_central:
  "DistanceBetween L lat_1 lon_1 lat_2 lon_2 degrees =
     (if degrees
      then fl_central L (fl_hav L (lib_DegToRad L lat_1) (lib_DegToRad L lon_1)
                           (lib_DegToRad L lat_2) (lib_DegToRad L lon_2))
      else fl_central L (fl_hav L lat_1 lon_1 lat_2 lon_2))"
  unfolding DistanceBetween_def fl_central_def fl_hav_def Let_def by simp




text \<open>
  The exception is the \<^verbatim>\<open>ValueError\<close> of \<^verbatim>\<open>math.sqrt\<close>: when rounding carries \<^verbatim>\<open>a\<close>
  above \<open>1\<close>, as it can for two points that are nearly antipodal, \<^verbatim>\<open>1 - a\<close> is
  negative and the call raises.
\<close>

lemma DistanceBetween_ValueError:
  assumes "fl_sub 1 (fl_hav L lat_1 lon_1 lat_2 lon_2) < 0"
  shows "DistanceBetween L lat_1 lon_1 lat_2 lon_2 False = Inl ValueError"
  using assms unfolding DistanceBetween_central fl_central_def fl_sqrt_def py_bind_def
  by simp

subsection \<open>Geoid heights outside the grid\<close>

lemma py_bind_Inr: "py_bind (Inr v) f = f v"
  by (simp add: py_bind_def)

lemma py_bind_Inl: "py_bind (Inl e) f = Inl e"
  by (simp add: py_bind_def)

lemma py_int_of_int: "py_int (of_int k) = k"
  by (simp add: py_int_def)

lemma grid_index_low: "py_int (y * 4 - py_fmod y (1 / 4) * 4) = \<lfloor>y * 4\<rfloor>"
proof -
  have "y * 4 - py_fmod y (1 / 4) * 4 = of_int \<lfloor>y * 4\<rfloor>"
    by (simp add: py_fmod_def)
  then show ?thesis by (simp only: py_int_of_int)
qed

lemma grid_index_high: "py_int (y * 4 - py_fmod y (1 / 4) * 4 + 1) = \<lfloor>y * 4\<rfloor> + 1"
proof -
  have "y * 4 - py_fmod y (1 / 4) * 4 + 1 = of_int (\<lfloor>y * 4\<rfloor> + 1)"
    by (simp add: py_fmod_def)
  then show ?thesis by (simp only: py_int_of_int)
qed

lemma GetHeight_Egm_init:
  "GetHeight (Egm_init rows) lat lon =
     py_bind (py_index2 rows \<lfloor>lat * 4\<rfloor> \<lfloor>lon * 4\<rfloor>) (\<lambda>q11.
     py_bind (py_index2 rows (\<lfloor>lat * 4\<rfloor> + 1) \<lfloor>lon * 4\<rfloor>) (\<lambda>q12.
     py_bind (py_index2 rows \<lfloor>lat * 4\<rfloor> (\<lfloor>lon * 4\<rfloor> + 1)) (\<lambda>q21.
     py_bind (py_index2 rows (\<lfloor>lat * 4\<rfloor> + 1) (\<lfloor>lon * 4\<rfloor> + 1)) (\<lambda>q22.
     Inr (py_round (bilinear lat lon q11 q12 q21 q22) 2)))))"
  unfolding GetHeight_def Egm_init_def Let_def py_fmod_checked_def bilinear_def
  by (simp add: grid_index_low grid_index_high py_bind_Inr py_div_def)


lemma py_index_Inl: "py_index xs i = Inl e \<Longrightarrow> e = IndexError"
  by (auto simp: py_index_def split: if_splits)

lemma py_index_Inr: "py_index xs i = Inr v \<Longrightarrow> - int (length xs) \<le> i \<and> i < int (length xs)"
  by (auto simp: py_index_def split: if_splits)

lemma py_index_Inr_mem: "py_index xs i = Inr v \<Longrightarrow> v \<in> set xs"
  by (auto simp: py_index_def split: if_splits)

lemma py_index2_Inl: "py_index2 g i j = Inl e \<Longrightarrow> e = IndexError"
  by (auto simp: py_index2_def py_bind_def split: sum.splits dest: py_index_Inl)

lemma py_index2_Inr:
  assumes "py_index2 g i j = Inr v" and "\<forall>row\<in>set g. length row = C"
  shows "- int (length g) \<le> i \<and> i < int (length g) \<and> - int C \<le> j \<and> j < int C"
proof -
  from assms(1) obtain row where r: "py_index g i = Inr row" and v: "py_index row j = Inr v"
    by (auto simp: py_index2_def py_bind_def split: sum.splits)
  from py_index_Inr_mem [OF r] assms(2) have "length row = C" by simp
  with py_index_Inr [OF r] py_index_Inr [OF v] show ?thesis by simp
qed

lemma GetHeight_error: "GetHeight (Egm_init rows) lat lon = Inl e \<Longrightarrow> e = IndexError"
  unfolding GetHeight_Egm_init
  by (auto simp: py_bind_def split: sum.splits dest: py_index2_Inl)

lemma GetHeight_Inr:
  assumes "GetHeight (Egm_init rows) lat lon = Inr h" and "\<forall>row\<in>set rows. length row = C"
  shows "- int (length rows) \<le> \<lfloor>lat * 4\<rfloor> \<and> \<lfloor>lat * 4\<rfloor> + 1 < int (length rows)
         \<and> - int C \<le> \<lfloor>lon * 4\<rfloor> \<and> \<lfloor>lon * 4\<rfloor> + 1 < int C"
proof -
  from assms(1) obtain q11 q22 where
    a: "py_index2 rows \<lfloor>lat * 4\<rfloor> \<lfloor>lon * 4\<rfloor> = Inr q11" and
    b: "py_index2 rows (\<lfloor>lat * 4\<rfloor> + 1) (\<lfloor>lon * 4\<rfloor> + 1) = Inr q22"
    unfolding GetHeight_Egm_init by (auto simp: py_bind_def split: sum.splits)
  from py_index2_Inr [OF a assms(2)] py_index2_Inr [OF b assms(2)] show ?thesis by simp
qed

text \<open>
  C5.  Take a grid of rows of one length \<open>C\<close>: its samples lie at the latitudes
  \<open>0, 0.25, \<dots>, (length rows - 1) * 0.25\<close> and the longitudes \<open>0, 0.25, \<dots>, (C - 1) * 0.25\<close>.
  For a query point whose latitude or longitude lies at or beyond the last sample,
  \<^verbatim>\<open>GetHeight\<close> raises \<^verbatim>\<open>IndexError\<close> and returns no height: the upper neighbour of
  the point is looked up past the end of the list.
\<close>

theorem GetHeight_outside_range:
  assumes "\<forall>row\<in>set rows. length row = C"
    and "(real (length rows) - 1) * 0.25 \<le> lat \<or> (real C - 1) * 0.25 \<le> lon"
  shows "GetHeight (Egm_init rows) lat lon = Inl IndexError"
proof (cases "GetHeight (Egm_init rows) lat lon")
  case (Inl e)
  with GetHeight_error [OF Inl] show ?thesis by simp
next
  case (Inr h)
  from GetHeight_Inr [OF Inr assms(1)]
  have "\<lfloor>lat * 4\<rfloor> + 1 < int (length rows)" "\<lfloor>lon * 4\<rfloor> + 1 < int C" by simp_all
  then have "lat * 4 < real (length rows) - 1" "lon * 4 < real C - 1"
    by linarith+
  with assms(2) show ?thesis by auto
qed

theorem GetHeight_outside_range_witness:
  "list_all (\<lambda>row. length row = 2) [[1, 2], [3, 4 :: real]]
   \<and> ((real (length [[1, 2], [3, 4 :: real]]) - 1) * 0.25 \<le> 0.25 \<or> (real 2 - 1) * 0.25 \<le> (0 :: real))
   \<and> GetHeight (Egm_init [[1, 2], [3, 4]]) 0.25 0 = Inl IndexError"
  using GetHeight_outside_range [of "[[1, 2], [3, 4]]" 2 "0.25" 0] by simp

subsection \<open>An object that is not an ellipsoid\<close>

text \<open>
  C6.  For an \<^verbatim>\<open>ellipsoid_ref\<close> that is neither \<^verbatim>\<open>Airy1830\<close> nor \<^verbatim>\<open>Wgs84\<close>,
  \<^verbatim>\<open>LatLonHeightToEcefCartesian\<close> prints \<^verbatim>\<open>Invalid ellipsoid!\<close>, goes on and raises
  \<^verbatim>\<open>UnboundLocalError\<close> at the first use of \<^verbatim>\<open>a\<close> and \<^verbatim>\<open>b\<close>;
  \<^verbatim>\<open>CartesianToLatLon\<close> raises the same exception without a message.  The code has no
  exception of its own for the case.
\<close>

theorem unrecognised_ellipsoid_UnboundLocalError:
  "LatLonHeightToEcefCartesian (Num lat) (Num lon) height LatLonDd OtherObject
     = ([''Invalid ellipsoid!''], Inl UnboundLocalError)
   \<and> CartesianToLatLon x y z OtherObject = Inl UnboundLocalError"
  by (simp add: LatLonHeightToEcefCartesian_def CartesianToLatLon_def coord_to_rad_def
      ellipsoid_params_def py_bind_def)

subsection \<open>Termination of the inverse projection\<close>

lemma sin_cos_le_one: "sin x * cos y \<le> (1::real)" and sin_cos_ge_minus_one: "- 1 \<le> sin x * cos (y::real)"
proof -
  have "\<bar>sin x * cos y\<bar> = \<bar>sin x\<bar> * \<bar>cos y\<bar>" by (rule abs_mult)
  also have "\<dots> \<le> 1 * 1"
    by (intro mult_mono abs_sin_le_one abs_cos_le_one) simp_all
  finally have "\<bar>sin x * cos y\<bar> \<le> 1" by simp
  then show "sin x * cos y \<le> 1" "- 1 \<le> sin x * cos y" by (simp_all add: abs_le_iff)
qed

text \<open>
  For a northing that is not negative the trigonometric terms of \<open>m\<close> are bounded and
  the first term grows with \<open>lat_dash\<close>, which the loop increases by a fixed positive
  amount in every round.
\<close>

lemma grid_m_lower:
  assumes N: "0 \<le> ntings" and b: "0 < b" and f0: "0 < f0"
  shows "b * f0 * (grid_c1 ntings * (lat_dash - lat_0) - grid_c ntings)
           \<le> grid_m ntings lat_0 b f0 lat_dash"
proof -
  define c2 where "c2 = (3 * ntings) + (3 * ntings ^ 2) + ((21 / 8) * ntings ^ 3)"
  define c3 where "c3 = ((15 / 8) * ntings ^ 2) + ((15 / 8) * ntings ^ 3)"
  define c4 where "c4 = (35 / 24) * ntings ^ 3"
  define s1 where "s1 = sin (lat_dash - lat_0) * cos (lat_dash + lat_0)"
  define s2 where "s2 = sin (2 * (lat_dash - lat_0)) * cos (2 * (lat_dash + lat_0))"
  define s3 where "s3 = sin (3 * (lat_dash - lat_0)) * cos (3 * (lat_dash + lat_0))"
  have c: "0 \<le> c2" "0 \<le> c3" "0 \<le> c4"
    using N by (simp_all add: c2_def c3_def c4_def)
  have s: "s1 \<le> 1" "- 1 \<le> s2" "s3 \<le> 1"
    unfolding s1_def s2_def s3_def
    by (rule sin_cos_le_one sin_cos_ge_minus_one)+
  have "c2 * s1 \<le> c2 * 1" "c3 * (- 1) \<le> c3 * s2" "c4 * s3 \<le> c4 * 1"
    using c s by (intro mult_left_mono; simp)+
  then have "grid_c1 ntings * (lat_dash - lat_0) - (c2 + c3 + c4)
      \<le> grid_c1 ntings * (lat_dash - lat_0) - c2 * s1 + (c3 * s2 - c4 * s3)"
    by simp
  moreover have "grid_m ntings lat_0 b f0 lat_dash
      = b * f0 * (grid_c1 ntings * (lat_dash - lat_0) - c2 * s1 + (c3 * s2 - c4 * s3))"
    unfolding grid_m_def Let_def grid_c1_def c2_def c3_def c4_def s1_def s2_def s3_def
    by (simp add: mult.assoc)
  moreover have "grid_c ntings = c2 + c3 + c4"
    by (simp add: grid_c_def c2_def c3_def c4_def)
  moreover have "0 \<le> b * f0" using b f0 by simp
  ultimately show ?thesis
    by (simp add: mult_left_mono)
qed

lemma grid_c1_pos: "0 \<le> ntings \<Longrightarrow> 1 \<le> grid_c1 ntings"
  by (simp add: grid_c1_def)

lemma grid_while_exit:
  "\<not> (0.001 \<le> ntings - n0 - m) \<Longrightarrow> grid_while ntings n0 lat_0 a b f0 lat_dash m = Some (lat_dash, m)"
  by (subst grid_while.simps) simp

lemma grid_while_step:
  "0.001 \<le> ntings - n0 - m \<Longrightarrow>
     grid_while ntings n0 lat_0 a b f0 lat_dash m
       = grid_while ntings n0 lat_0 a b f0 (((ntings - n0) / (a * f0)) + lat_dash)
           (grid_m ntings lat_0 b f0 lat_dash)"
  by (subst grid_while.simps) simp

lemma real_Suc_times: "real (Suc k) * x = x + real k * x"
  by (simp add: distrib_right)

lemma grid_while_terminates_aux:
  assumes N: "0 \<le> ntings" and b: "0 < b" and f0: "0 < f0"
    and far: "lat_0 + ((ntings - n0) / (b * f0) + grid_c ntings) / grid_c1 ntings
                \<le> lat_dash + real k * ((ntings - n0) / (a * f0))"
  shows "\<exists>r. grid_while ntings n0 lat_0 a b f0 lat_dash m = Some r"
  using far
proof (induction k arbitrary: lat_dash m)
  case 0
  show ?case
  proof (cases "0.001 \<le> ntings - n0 - m")
    case False
    then show ?thesis by (simp add: grid_while_exit)
  next
    case True
    have c1: "0 < grid_c1 ntings" using grid_c1_pos [OF N] by simp
    from 0 have "((ntings - n0) / (b * f0) + grid_c ntings) / grid_c1 ntings \<le> lat_dash - lat_0"
      by simp
    then have "(ntings - n0) / (b * f0) + grid_c ntings \<le> grid_c1 ntings * (lat_dash - lat_0)"
      using c1 by (simp add: pos_divide_le_eq mult.commute)
    then have "(ntings - n0) / (b * f0) \<le> grid_c1 ntings * (lat_dash - lat_0) - grid_c ntings"
      by simp
    then have "b * f0 * ((ntings - n0) / (b * f0))
        \<le> b * f0 * (grid_c1 ntings * (lat_dash - lat_0) - grid_c ntings)"
      using b f0 by (intro mult_left_mono) simp_all
    moreover have "b * f0 * ((ntings - n0) / (b * f0)) = ntings - n0"
      using b f0 by simp
    ultimately have "ntings - n0 \<le> grid_m ntings lat_0 b f0 lat_dash"
      using grid_m_lower [OF N b f0, of lat_dash lat_0] by linarith
    then have "\<not> (0.001 \<le> ntings - n0 - grid_m ntings lat_0 b f0 lat_dash)"
      by simp
    then show ?thesis
      by (simp add: grid_while_step [OF True] grid_while_exit)
  qed
next
  case (Suc k)
  show ?case
  proof (cases "0.001 \<le> ntings - n0 - m")
    case False
    then show ?thesis by (simp add: grid_while_exit)
  next
    case True
    have "real (Suc k) * ((ntings - n0) / (a * f0))
        = (ntings - n0) / (a * f0) + real k * ((ntings - n0) / (a * f0))"
      by (rule real_Suc_times)
    with Suc.prems have "lat_0 + ((ntings - n0) / (b * f0) + grid_c ntings) / grid_c1 ntings
        \<le> (((ntings - n0) / (a * f0)) + lat_dash) + real k * ((ntings - n0) / (a * f0))"
      by linarith
    from Suc.IH [OF this] show ?thesis
      by (simp add: grid_while_step [OF True])
  qed
qed

lemma grid_while_terminates:
  assumes N: "0 \<le> ntings" and b: "0 < b" and f0: "0 < f0" and a: "0 < a" and n0: "n0 < 0"
  shows "\<exists>r. grid_while ntings n0 lat_0 a b f0 lat_dash m = Some r"
proof -
  have "0 < (ntings - n0) / (a * f0)"
    using N n0 a f0 by simp
  from reals_Archimedean3 [OF this]
  obtain k where "lat_0 + ((ntings - n0) / (b * f0) + grid_c ntings) / grid_c1 ntings - lat_dash
      < real k * ((ntings - n0) / (a * f0))"
    by blast
  then have "lat_0 + ((ntings - n0) / (b * f0) + grid_c ntings) / grid_c1 ntings
                \<le> lat_dash + real k * ((ntings - n0) / (a * f0))"
    by simp
  from grid_while_terminates_aux [OF N b f0 this] show ?thesis .
qed

text \<open>
  C4, as the code has it.  For every northing \<open>ntings \<ge> 0\<close>, the whole range of the grid,
  the loop of \<^verbatim>\<open>GridEastNorthToLatLon\<close> ends after finitely many rounds and the call
  returns (the value \<^verbatim>\<open>None\<close>).
\<close>

theorem GridEastNorthToLatLon_terminates:
  assumes "0 \<le> ntings"
  shows "GridEastNorthToLatLon ntings etings = Some None"
proof -
  define L0 where "L0 = ((ntings - (- 100000)) / (6377563.396 * 0.9996012717)) + DegToRad 49"
  have "\<exists>r. grid_while ntings (- 100000) (DegToRad 49) 6377563.396 6356256.909 0.9996012717 L0 0
      = Some r"
    by (rule grid_while_terminates) (simp_all add: assms)
  then obtain r where r: "grid_while ntings (- 100000) (DegToRad 49) 6377563.396 6356256.909
      0.9996012717 L0 0 = Some r"
    by blast
  have "GridEastNorthToLatLon ntings etings
      = (case grid_while ntings (- 100000) (DegToRad 49) 6377563.396 6356256.909 0.9996012717 L0 0
         of None \<Rightarrow> None | Some (lat_dash, m) \<Rightarrow> Some None)"
    unfolding GridEastNorthToLatLon_def Let_def GetAiry1830_def L0_def prod.case ..
  also have "\<dots> = Some None"
    unfolding r by (simp split: prod.splits)
  finally show ?thesis .
qed

theorem GridEastNorthToLatLon_terminates_witness:
  "(0::real) \<le> 313177 \<and> GridEastNorthToLatLon 313177 651409 = Some None"
  using GridEastNorthToLatLon_terminates [of 313177 651409] by simp


text \<open>
  C4, as stated, fails: for the northing \<open>0\<close> the loop runs twice and the call returns.
\<close>

lemma grid_m_zero_northing: "grid_m 0 lat_0 b f0 lat_dash = b * f0 * (lat_dash - lat_0)"
  by (simp add: grid_m_def)

theorem GridEastNorthToLatLon_zero_northing_counterexample:
  "GridEastNorthToLatLon 0 400000 = Some None"
proof -
  define f0 :: real where "f0 = 0.9996012717"
  define d :: real where "d = ((0 - (- 100000)) / (6377563.396 * f0))"
  define L where "L = DegToRad 49"
  define b :: real where "b = 6356256.909"
  have bfd: "b * f0 * d = 635625690900000 / 6377563396"
    by (simp add: b_def f0_def d_def)
  have c0: "0.001 \<le> (0::real) - (- 100000) - 0" by simp
  have c1: "0.001 \<le> (0::real) - (- 100000) - grid_m 0 L b f0 (d + L)"
    unfolding grid_m_zero_northing by (simp add: bfd)
  have c2: "\<not> (0.001 \<le> (0::real) - (- 100000) - grid_m 0 L b f0 (d + (d + L)))"
  proof -
    have "grid_m 0 L b f0 (d + (d + L)) = 2 * (b * f0 * d)"
      unfolding grid_m_zero_northing by (simp add: algebra_simps)
    then show ?thesis by (simp add: bfd)
  qed
  have "grid_while 0 (- 100000) L 6377563.396 b f0 (d + L) 0
      = grid_while 0 (- 100000) L 6377563.396 b f0 (d + (d + L)) (grid_m 0 L b f0 (d + L))"
    using grid_while_step [of 0 "- 100000" 0 L "6377563.396" b f0 "d + L", OF c0]
    unfolding d_def .
  also have "\<dots> = grid_while 0 (- 100000) L 6377563.396 b f0 (d + (d + (d + L)))
      (grid_m 0 L b f0 (d + (d + L)))"
    using grid_while_step [of 0 "- 100000" "grid_m 0 L b f0 (d + L)" L "6377563.396" b f0
        "d + (d + L)", OF c1]
    unfolding d_def .
  also have "\<dots> = Some (d + (d + (d + L)), grid_m 0 L b f0 (d + (d + L)))"
    by (rule grid_while_exit [OF c2])
  finally have w: "grid_while 0 (- 100000) L 6377563.396 b f0 (d + L) 0
      = Some (d + (d + (d + L)), grid_m 0 L b f0 (d + (d + L)))" .
  have "GridEastNorthToLatLon 0 400000
      = (case grid_while 0 (- 100000) L 6377563.396 b f0 (d + L) 0
         of None \<Rightarrow> None | Some (lat_dash, m) \<Rightarrow> Some None)"
    unfolding GridEastNorthToLatLon_def Let_def GetAiry1830_def L_def d_def b_def f0_def prod.case ..
  also have "\<dots> = Some None"
    unfolding w by simp
  finally show ?thesis .
qed

subsection \<open>From geodetic to Cartesian coordinates and back\<close>

lemma RadToDeg_DegToRad: "RadToDeg (DegToRad x) = x"
  by (simp add: RadToDeg_def DegToRad_def)

lemma py_div_nz: "y \<noteq> 0 \<Longrightarrow> py_div x y = Inr (x / y)"
  by (simp add: py_div_def)

lemma py_sqrt_nonneg: "0 \<le> x \<Longrightarrow> py_sqrt x = Inr (sqrt x)"
  by (simp add: py_sqrt_def)

lemma Eccentricity1_range:
  assumes "0 < b" "b < a"
  shows "0 < Eccentricity1 a b" "Eccentricity1 a b < 1"
proof -
  have "b ^ 2 < a ^ 2" using assms by (simp add: power_strict_mono)
  moreover have "0 < b ^ 2" "0 < a ^ 2" using assms by simp_all
  ultimately show "0 < Eccentricity1 a b" "Eccentricity1 a b < 1"
    by (simp_all add: Eccentricity1_def)
qed

lemma curvature_arg_pos:
  fixes e2 t :: real
  assumes "0 < e2" "e2 < 1"
  shows "0 < 1 - (e2 * sin t ^ 2)" "1 - (e2 * sin t ^ 2) \<le> 1"
proof -
  have "sin t ^ 2 \<le> 1" using abs_sin_le_one [of t] by (simp add: abs_square_le_1)
  then have "e2 * sin t ^ 2 \<le> e2 * 1"
    using assms(1) by (intro mult_left_mono) simp_all
  with assms(2) show "0 < 1 - (e2 * sin t ^ 2)" by simp
  show "1 - (e2 * sin t ^ 2) \<le> 1" using assms(1) by simp
qed

text \<open>
  \<^verbatim>\<open>CartesianToLatLon\<close> returns whenever \<open>x\<close> and the denominator of
  \<^verbatim>\<open>tan_lat_prime\<close> are not zero, and the longitude it returns is \<open>arctan (y / x)\<close>.
\<close>

lemma CartesianToLatLon_returns:
  assumes ep: "ellipsoid_params ellipsoid_ref = Some (a, b)"
    and ab: "0 < b" "b < a"
    and x: "x \<noteq> 0"
    and bot: "cart_bot a b (sqrt (x ^ 2 + y ^ 2)) z \<noteq> 0"
  shows "\<exists>lat height. CartesianToLatLon x y z ellipsoid_ref
           = Inr (lat, RadToDeg (arctan (y / x)), height)"
proof -
  define e2 where "e2 = Eccentricity1 a b"
  define e22 where "e22 = Eccentricity2 a b"
  define p where "p = sqrt (x ^ 2 + y ^ 2)"
  define R where "R = sqrt (p ^ 2 + z ^ 2)"
  define tb where "tb = ((b * z) / (a * p)) * ((1 + e22) * (b / R))"
  define top where "top = z + (e22 * b * sin (arctan tb) ^ 3)"
  define bt where "bt = p - (e2 * a * cos (arctan tb) ^ 3)"
  define lat_rad where "lat_rad = arctan (top / bt)"
  define w where "w = sqrt (1 - (e2 * sin lat_rad ^ 2))"
  define v where "v = a / w"
  have "0 < x ^ 2" using x by simp
  then have "0 < x ^ 2 + y ^ 2" by (simp add: add_pos_nonneg)
  then have p: "0 < p" by (simp add: p_def)
  then have "0 < p ^ 2 + z ^ 2" by (simp add: add_pos_nonneg)
  then have R: "0 < R" by (simp add: R_def)
  have W: "0 < 1 - (e2 * sin lat_rad ^ 2)"
    unfolding e2_def by (rule curvature_arg_pos) (rule Eccentricity1_range [OF ab])+
  then have w: "0 < w" by (simp add: w_def)
  have d1: "py_div (b * z) (a * p) = Inr ((b * z) / (a * p))"
    using ab p by (intro py_div_nz) simp
  have d2: "py_div b R = Inr (b / R)"
    using R by (intro py_div_nz) simp
  have "bt = cart_bot a b (sqrt (x ^ 2 + y ^ 2)) z"
    by (simp only: bt_def cart_bot_def cart_tan_beta_def tb_def e2_def e22_def R_def p_def)
  then have d3: "py_div top bt = Inr (top / bt)"
    using bot by (intro py_div_nz) simp
  have d4: "py_div y x = Inr (y / x)"
    using x by (rule py_div_nz)
  have d5: "py_sqrt (1 - (e2 * sin lat_rad ^ 2)) = Inr w"
    unfolding w_def using W by (intro py_sqrt_nonneg) simp
  have d6: "py_div a w = Inr v"
    unfolding v_def using w by (intro py_div_nz) simp
  have d7: "py_div (a ^ 2) v = Inr (a ^ 2 / v)"
    using ab w by (intro py_div_nz) (simp add: v_def)
  have "CartesianToLatLon x y z ellipsoid_ref
      = Inr (RadToDeg lat_rad, RadToDeg (arctan (y / x)),
             (p * cos lat_rad) + (z * sin lat_rad) - (a ^ 2 / v))"
    apply (simp only: CartesianToLatLon_def ep option.case prod.case Let_def)
    apply (simp only: e2_def [symmetric] e22_def [symmetric] p_def [symmetric])
    apply (simp only: R_def [symmetric])
    apply (simp only: d1 d2 py_bind_Inr)
    apply (simp only: tb_def [symmetric])
    apply (simp only: top_def [symmetric] bt_def [symmetric])
    apply (simp only: d3 py_bind_Inr)
    apply (simp only: lat_rad_def [symmetric])
    apply (simp only: d4 d5 d6 d7 py_bind_Inr)
    done
  then show ?thesis by blast
qed


lemma ecef_v_ge:
  assumes ab: "0 < b" "b < a"
  shows "a \<le> ecef_v a b lat"
proof -
  have W: "0 < 1 - (Eccentricity1 a b * sin lat ^ 2)" "1 - (Eccentricity1 a b * sin lat ^ 2) \<le> 1"
    by (rule curvature_arg_pos; rule Eccentricity1_range [OF ab])+
  then have "0 < sqrt (1 - (Eccentricity1 a b * sin lat ^ 2))"
    "sqrt (1 - (Eccentricity1 a b * sin lat ^ 2)) \<le> 1"
    by simp_all
  then have "a * sqrt (1 - (Eccentricity1 a b * sin lat ^ 2)) \<le> a * 1"
    using ab by (intro mult_left_mono) simp_all
  then show ?thesis
    using \<open>0 < sqrt (1 - (Eccentricity1 a b * sin lat ^ 2))\<close>
    by (simp add: ecef_v_def pos_le_divide_eq)
qed

lemma LatLonHeightToEcefCartesian_Dd:
  assumes ep: "ellipsoid_params ellipsoid_ref = Some (a, b)" and ab: "0 < b" "b < a"
  shows "LatLonHeightToEcefCartesian (Num lat) (Num lon) height LatLonDd ellipsoid_ref
     = ([], Inr ((ecef_v a b (DegToRad lat) + height) * cos (DegToRad lat) * cos (DegToRad lon),
                 (ecef_v a b (DegToRad lat) + height) * cos (DegToRad lat) * sin (DegToRad lon),
                 (((1 - Eccentricity1 a b) * ecef_v a b (DegToRad lat)) + height)
                   * sin (DegToRad lat)))"
proof -
  have W: "0 < 1 - (Eccentricity1 a b * sin (DegToRad lat) ^ 2)"
    by (rule curvature_arg_pos; rule Eccentricity1_range [OF ab])
  then have w: "sqrt (1 - (Eccentricity1 a b * sin (DegToRad lat) ^ 2)) \<noteq> 0"
    by simp
  have d1: "py_sqrt (1 - (Eccentricity1 a b * sin (DegToRad lat) ^ 2))
      = Inr (sqrt (1 - (Eccentricity1 a b * sin (DegToRad lat) ^ 2)))"
    using W by (intro py_sqrt_nonneg) simp
  have d2: "py_div a (sqrt (1 - (Eccentricity1 a b * sin (DegToRad lat) ^ 2)))
      = Inr (ecef_v a b (DegToRad lat))"
    unfolding ecef_v_def using w by (rule py_div_nz)
  show ?thesis
    apply (simp only: LatLonHeightToEcefCartesian_def coord_to_rad_def simp_thms if_True coord_arg.case
        py_bind_Inr sum.case prod.case ep option.case Let_def coord_num_def)
    apply (simp only: d1 py_bind_Inr d2)
    done
qed

lemma one_plus_Eccentricity2: "b \<noteq> 0 \<Longrightarrow> 1 + Eccentricity2 a b = a ^ 2 / b ^ 2"
  by (simp add: Eccentricity2_def field_simps)


text \<open>
  The denominator of \<^verbatim>\<open>tan_lat_prime\<close> is positive for a point away from the axis
  whose distance from the centre exceeds \<open>e2 * a\<close>.
\<close>

lemma pt_step:
  fixes a b p z R :: real
  assumes ab: "0 < b" "b < a" and p: "0 < p" and Rpos: "0 < R"
  shows "p * (((b * z) / (a * p)) * ((a ^ 2 / b ^ 2) * (b / R))) = z * a / R"
proof -
  have "p * (((b * z) / (a * p)) * ((a ^ 2 / b ^ 2) * (b / R)))
      = (p * b * z * a ^ 2 * b) / (a * p * b ^ 2 * R)"
    by simp
  also have "\<dots> = (z * a) * (p * a * b ^ 2) / (R * (p * a * b ^ 2))"
    by (simp add: power2_eq_square)
  also have "\<dots> = z * a / R"
    using ab p by simp
  finally show ?thesis .
qed


lemma cart_bot_pos:
  assumes ab: "0 < b" "b < a"
    and p: "0 < p"
    and R: "Eccentricity1 a b * a < sqrt (p ^ 2 + z ^ 2)"
  shows "0 < cart_bot a b p z"
proof -
  define E where "E = Eccentricity1 a b * a"
  define R where "R = sqrt (p ^ 2 + z ^ 2)"
  define t where "t = cart_tan_beta a b p z"
  define cb where "cb = cos (arctan t)"
  have e2: "0 < Eccentricity1 a b" "Eccentricity1 a b < 1"
    by (rule Eccentricity1_range [OF ab])+
  have E1: "0 < E" unfolding E_def using e2(1) ab by simp
  have "Eccentricity1 a b * a < 1 * a"
    using e2(2) ab by (intro mult_strict_right_mono) simp_all
  then have E2: "E < a" by (simp add: E_def)
  have E3: "E < R" using R by (simp add: E_def R_def)
  have Rpos: "0 < R" using E1 E3 by simp
  have R2: "R ^ 2 = p ^ 2 + z ^ 2"
    unfolding R_def by (simp add: add_nonneg_nonneg)
  have bnz: "b \<noteq> 0" using ab by simp
  have pt: "p * t = z * a / R"
    unfolding t_def cart_tan_beta_def R_def [symmetric] one_plus_Eccentricity2 [OF bnz]
    by (rule pt_step [OF ab p Rpos])
  have ER: "E ^ 2 < R ^ 2"
    using E1 E3 by (intro power_strict_mono) simp_all
  have Ea: "E ^ 2 \<le> a ^ 2"
    using E1 E2 by (intro power_mono) simp_all
  have p2: "0 < p ^ 2" using p by simp
  have "E ^ 2 * p ^ 2 < R ^ 2 * p ^ 2"
    using ER p2 by (rule mult_strict_right_mono)
  moreover have "E ^ 2 * z ^ 2 \<le> a ^ 2 * z ^ 2"
    using Ea by (rule mult_right_mono) simp
  ultimately have "E ^ 2 * p ^ 2 + E ^ 2 * z ^ 2 < R ^ 2 * p ^ 2 + a ^ 2 * z ^ 2"
    by (rule add_less_le_mono)
  then have key: "E ^ 2 * R ^ 2 < R ^ 2 * p ^ 2 + a ^ 2 * z ^ 2"
    by (simp only: R2 distrib_left)
  have "(p * t) ^ 2 = (z * a) ^ 2 / R ^ 2"
    unfolding pt by (rule power_divide)
  then have "R ^ 2 * (p ^ 2 + (p * t) ^ 2) = R ^ 2 * p ^ 2 + (z * a) ^ 2"
    using Rpos by (simp add: distrib_left)
  also have "\<dots> = R ^ 2 * p ^ 2 + a ^ 2 * z ^ 2"
    by (simp add: power_mult_distrib mult.commute)
  finally have "E ^ 2 * R ^ 2 < (p ^ 2 + (p * t) ^ 2) * R ^ 2"
    using key by (simp add: mult.commute)
  then have "E ^ 2 < p ^ 2 + (p * t) ^ 2"
    using Rpos by (simp only: mult_less_cancel_right_pos zero_less_power)
  also have "p ^ 2 + (p * t) ^ 2 = p ^ 2 * (1 + t ^ 2)"
    by (simp only: power_mult_distrib distrib_left mult_1_right)
  also have "\<dots> = (p * sqrt (1 + t ^ 2)) ^ 2"
    by (simp add: power_mult_distrib add_nonneg_nonneg)
  finally have lt: "E ^ 2 < (p * sqrt (1 + t ^ 2)) ^ 2" .
  have s: "0 < sqrt (1 + t ^ 2)"
    by (simp add: add_pos_nonneg)
  then have "0 \<le> p * sqrt (1 + t ^ 2)" using p by simp
  with lt have "E < p * sqrt (1 + t ^ 2)"
    by (rule power2_less_imp_less)
  then have "E / sqrt (1 + t ^ 2) < p"
    using s by (simp only: pos_divide_less_eq)
  moreover have cbv: "cb = 1 / sqrt (1 + t ^ 2)"
    unfolding cb_def by (rule cos_arctan)
  ultimately have Ecb: "E * cb < p" by simp
  have cb0: "0 < cb" unfolding cbv using s by simp
  have cb1: "cb \<le> 1" unfolding cb_def by (rule cos_le_one)
  have "cb ^ 2 \<le> 1" using cb0 cb1 by (intro power_le_one) simp_all
  then have "cb * cb ^ 2 \<le> cb * 1"
    using cb0 by (intro mult_left_mono) simp_all
  moreover have "cb ^ 3 = cb * cb ^ 2"
    by (simp add: power3_eq_cube power2_eq_square)
  ultimately have "cb ^ 3 \<le> cb" by simp
  then have "E * cb ^ 3 \<le> E * cb"
    using E1 by (intro mult_left_mono) simp_all
  with Ecb have "E * cb ^ 3 < p" by simp
  then show ?thesis
    unfolding cart_bot_def E_def cb_def t_def by simp
qed


lemma DegToRad_quarter:
  assumes "- 90 < d" "d < 90"
  shows "- (pi / 2) < DegToRad d" "DegToRad d < pi / 2"
proof -
  have "(- 90) * pi < d * pi"
    using assms(1) pi_gt_zero by (rule mult_strict_right_mono)
  moreover have "d * pi < 90 * pi"
    using assms(2) pi_gt_zero by (rule mult_strict_right_mono)
  ultimately show "- (pi / 2) < DegToRad d" "DegToRad d < pi / 2"
    by (simp_all add: DegToRad_def)
qed

lemma ellipsoid_params_member:
  "\<exists>a b. ellipsoid_params (Ellipsoid ell) = Some (a, b) \<and> 0 < b \<and> b < a
         \<and> Eccentricity1 a b < 1 / 2"
proof (cases ell)
  case Airy1830
  have "ellipsoid_params (Ellipsoid Airy1830) = Some (6377563.396, 6356256.909)"
    by (simp add: ellipsoid_params_def GetAiry1830_def)
  moreover have "(0::real) < 6356256.909" "(6356256.909::real) < 6377563.396"
    "Eccentricity1 6377563.396 6356256.909 < 1 / 2"
    by (simp_all add: Eccentricity1_def power2_eq_square)
  ultimately show ?thesis unfolding Airy1830 by blast
next
  case Wgs84
  have "ellipsoid_params (Ellipsoid Wgs84) = Some (6378137.000, 6356752.3141)"
    by (simp add: ellipsoid_params_def GetWgs84_def)
  moreover have "(0::real) < 6356752.3141" "(6356752.3141::real) < 6378137.000"
    "Eccentricity1 6378137.000 6356752.3141 < 1 / 2"
    by (simp_all add: Eccentricity1_def power2_eq_square)
  ultimately show ?thesis unfolding Wgs84 by blast
qed

lemma ecef_radius_lower:
  fixes c s v g h :: real
  assumes cs: "c ^ 2 + s ^ 2 = 1" and g: "0 \<le> G" "G \<le> g" "g \<le> v + h"
  shows "G \<le> sqrt (((v + h) * c) ^ 2 + (g * s) ^ 2)"
proof -
  have "0 \<le> g" using g by simp
  then have "g ^ 2 \<le> (v + h) ^ 2"
    using g(3) by (intro power_mono) simp_all
  then have "g ^ 2 * c ^ 2 \<le> (v + h) ^ 2 * c ^ 2"
    by (intro mult_right_mono) simp_all
  then have "g ^ 2 * (c ^ 2 + s ^ 2) \<le> ((v + h) * c) ^ 2 + (g * s) ^ 2"
    by (simp add: power_mult_distrib distrib_left)
  then have "g ^ 2 \<le> ((v + h) * c) ^ 2 + (g * s) ^ 2"
    by (simp add: cs)
  moreover have "G ^ 2 \<le> g ^ 2"
    using g by (intro power_mono) simp_all
  ultimately have "G ^ 2 \<le> ((v + h) * c) ^ 2 + (g * s) ^ 2" by simp
  then show ?thesis
    using g(1) by (intro real_le_rsqrt) simp
qed

text \<open>
  In front of the plane \<open>x = 0\<close> the longitude comes back.  For a point with latitude and
  longitude strictly between \<open>-90\<close> and \<open>90\<close> degrees and a height that is not negative,
  on either ellipsoid, \<^verbatim>\<open>LatLonHeightToEcefCartesian\<close> returns a point with \<open>x > 0\<close>, and
  \<^verbatim>\<open>CartesianToLatLon\<close> returns from it with the original longitude.
\<close>

lemma ecef_longitude_front:
  assumes lat: "- 90 < lat" "lat < 90" and lon: "- 90 < lon" "lon < 90" and h: "0 \<le> height"
  shows "\<exists>x y z lat' height'.
           LatLonHeightToEcefCartesian (Num lat) (Num lon) height LatLonDd (Ellipsoid ell)
             = ([], Inr (x, y, z))
           \<and> 0 < x
           \<and> CartesianToLatLon x y z (Ellipsoid ell) = Inr (lat', lon, height')"
proof -
  from ellipsoid_params_member [of ell] obtain a b where
    ep: "ellipsoid_params (Ellipsoid ell) = Some (a, b)" and ab: "0 < b" "b < a"
    and half: "Eccentricity1 a b < 1 / 2"
    by blast
  define e2 where "e2 = Eccentricity1 a b"
  define v where "v = ecef_v a b (DegToRad lat)"
  define g where "g = ((1 - e2) * v) + height"
  define p where "p = (v + height) * cos (DegToRad lat)"
  define x where "x = (v + height) * cos (DegToRad lat) * cos (DegToRad lon)"
  define y where "y = (v + height) * cos (DegToRad lat) * sin (DegToRad lon)"
  define z where "z = g * sin (DegToRad lat)"
  have e2: "0 < e2" "e2 < 1" "e2 < 1 / 2"
    unfolding e2_def using Eccentricity1_range [OF ab] half by simp_all
  have v: "a \<le> v" unfolding v_def by (rule ecef_v_ge [OF ab])
  have clat: "0 < cos (DegToRad lat)"
    using DegToRad_quarter [OF lat] by (intro cos_gt_zero_pi)
  have clon: "0 < cos (DegToRad lon)"
    using DegToRad_quarter [OF lon] by (intro cos_gt_zero_pi)
  have vh: "0 < v + height" using v ab h by simp
  have p: "0 < p" unfolding p_def using vh clat by simp
  have xpos: "0 < x" unfolding x_def using vh clat clon by simp
  have fwd: "LatLonHeightToEcefCartesian (Num lat) (Num lon) height LatLonDd (Ellipsoid ell)
      = ([], Inr (x, y, z))"
    unfolding LatLonHeightToEcefCartesian_Dd [OF ep ab] x_def y_def z_def g_def v_def e2_def ..
  have "x ^ 2 + y ^ 2 = p ^ 2 * ((cos (DegToRad lon)) ^ 2 + (sin (DegToRad lon)) ^ 2)"
    unfolding x_def y_def p_def by (simp only: power_mult_distrib distrib_left)
  then have "x ^ 2 + y ^ 2 = p ^ 2" by simp
  then have sq: "sqrt (x ^ 2 + y ^ 2) = p" using p by simp
  have "(1 - e2) * a \<le> (1 - e2) * v"
    using v e2 by (intro mult_left_mono) simp_all
  then have G2: "(1 - e2) * a \<le> g"
    using h unfolding g_def by linarith
  have G1: "0 \<le> (1 - e2) * a"
    using e2 ab by simp
  have "(1 - e2) * v \<le> 1 * v"
    using e2 v ab by (intro mult_right_mono) simp_all
  then have G3: "g \<le> v + height"
    unfolding g_def by simp
  note G = G1 G2 G3
  have "(1 - e2) * a \<le> sqrt (((v + height) * cos (DegToRad lat)) ^ 2 + (g * sin (DegToRad lat)) ^ 2)"
    by (rule ecef_radius_lower [OF _ G]) simp
  moreover have "e2 * a < (1 - e2) * a"
    using e2 ab by simp
  ultimately have "Eccentricity1 a b * a < sqrt (p ^ 2 + z ^ 2)"
    by (simp add: p_def z_def e2_def)
  from cart_bot_pos [OF ab p this] have "cart_bot a b (sqrt (x ^ 2 + y ^ 2)) z \<noteq> 0"
    by (simp add: sq)
  from CartesianToLatLon_returns [OF ep ab _ this] xpos
  obtain lat' height' where
    inv: "CartesianToLatLon x y z (Ellipsoid ell) = Inr (lat', RadToDeg (arctan (y / x)), height')"
    by auto
  have "y / x = tan (DegToRad lon)"
    unfolding x_def y_def tan_def using vh clat clon by simp
  then have "arctan (y / x) = DegToRad lon"
    using DegToRad_quarter [OF lon] by (simp add: arctan_tan)
  then have "RadToDeg (arctan (y / x)) = lon"
    by (simp add: RadToDeg_DegToRad)
  with fwd inv xpos show ?thesis by auto
qed

text \<open>
  C2.  Behind that plane the round trip fails.  On WGS84 the point at latitude \<open>0\<close>,
  longitude \<open>180\<close> and height \<open>1000\<close> has the Cartesian coordinates \<open>(-6379137, 0, 0)\<close>,
  with \<open>x \<noteq> 0\<close>, and \<^verbatim>\<open>CartesianToLatLon\<close> returns it with the right latitude and
  height and the longitude \<open>0\<close>: the longitude is \<^verbatim>\<open>math.atan(y / x)\<close>, which lies
  between \<open>-90\<close> and \<open>90\<close> degrees, where \<^verbatim>\<open>math.atan2(y, x)\<close> is \<open>180\<close> degrees.
\<close>

theorem ecef_roundtrip_longitude_180:
  "LatLonHeightToEcefCartesian (Num 0) (Num 180) 1000 LatLonDd (Ellipsoid Wgs84)
     = ([], Inr (- 6379137, 0, 0))
   \<and> CartesianToLatLon (- 6379137) 0 0 (Ellipsoid Wgs84) = Inr (0, 0, 1000)
   \<and> RadToDeg (py_atan2 0 (- 6379137)) = 180"
proof (intro conjI)
  have ep: "ellipsoid_params (Ellipsoid Wgs84) = Some (6378137.000, 6356752.3141)"
    by (simp add: ellipsoid_params_def GetWgs84_def)
  have ab: "(0::real) < 6356752.3141" "(6356752.3141::real) < 6378137.000" by simp_all
  have r: "DegToRad 0 = 0" "DegToRad 180 = pi" by (simp_all add: DegToRad_def)
  show "LatLonHeightToEcefCartesian (Num 0) (Num 180) 1000 LatLonDd (Ellipsoid Wgs84)
     = ([], Inr (- 6379137, 0, 0))"
    unfolding LatLonHeightToEcefCartesian_Dd [OF ep ab] r by (simp add: ecef_v_def)
  show "CartesianToLatLon (- 6379137) 0 0 (Ellipsoid Wgs84) = Inr (0, 0, 1000)"
    unfolding CartesianToLatLon_def ep option.case prod.case Let_def
    by (simp add: py_div_def py_sqrt_def py_bind_Inr Eccentricity1_def Eccentricity2_def
        RadToDeg_def power2_eq_square)
  show "RadToDeg (py_atan2 0 (- 6379137)) = 180"
    by (simp add: py_atan2_def RadToDeg_def)
qed

subsection \<open>Degrees, minutes and seconds: writing and reading back\<close>

lemma digit_char_cases:
  assumes "d < 10"
  shows "d = 0 \<or> d = 1 \<or> d = 2 \<or> d = 3 \<or> d = 4 \<or> d = 5 \<or> d = 6 \<or> d = 7 \<or> d = 8 \<or> d = (9::nat)"
  using assms by arith

lemma digit_char_props:
  assumes "d < 10"
  shows "is_digit (digit_char d)" and "digit_val (digit_char d) = d"
    and "digit_char d \<noteq> CHR '' ''" and "digit_char d \<noteq> CHR ''.''"
    and "digit_char d \<noteq> CHR ''-''" and "digit_char d \<noteq> CHR ''+''"
  using digit_char_cases [OF assms]
  by (auto simp: digit_char_def is_digit_def digit_val_def)

lemma is_digit_props:
  assumes "is_digit c"
  shows "c \<noteq> CHR '' ''" and "c \<noteq> CHR ''.''" and "c \<noteq> CHR ''-''" and "c \<noteq> CHR ''+''"
  using assms by (auto simp: is_digit_def)

lemma str_nat_digits: "list_all is_digit (str_nat n)"
proof (induction n rule: str_nat.induct)
  case (1 n)
  show ?case
  proof (cases "n < 10")
    case True
    then show ?thesis by (subst str_nat.simps) (simp add: digit_char_props)
  next
    case False
    have "n mod 10 < 10" by simp
    with False 1 show ?thesis
      by (subst str_nat.simps) (simp add: digit_char_props)
  qed
qed

lemma str_nat_nonempty: "str_nat n \<noteq> []"
  by (subst str_nat.simps) simp

lemma nat_of_digits_snoc: "nat_of_digits (s @ [c]) = 10 * nat_of_digits s + digit_val c"
  by (simp add: nat_of_digits_def)

lemma nat_of_digits_str_nat: "nat_of_digits (str_nat n) = n"
proof (induction n rule: str_nat.induct)
  case (1 n)
  show ?case
  proof (cases "n < 10")
    case True
    then show ?thesis
      by (subst str_nat.simps) (simp add: nat_of_digits_def digit_char_props)
  next
    case False
    have "n mod 10 < 10" by simp
    then have "digit_val (digit_char (n mod 10)) = n mod 10" by (rule digit_char_props)
    with False 1 show ?thesis
      by (subst str_nat.simps) (simp add: nat_of_digits_snoc)
  qed
qed

lemma length_str_nat: "n < 10 ^ Suc w \<Longrightarrow> length (str_nat n) \<le> Suc w"
proof (induction n arbitrary: w rule: str_nat.induct)
  case (1 n)
  show ?case
  proof (cases "n < 10")
    case True
    then show ?thesis by (subst str_nat.simps) simp
  next
    case False
    then obtain w' where w: "w = Suc w'"
      using "1.prems" by (cases w) auto
    from "1.prems" have "n div 10 < 10 ^ Suc w'"
      unfolding w by (simp add: less_mult_imp_div_less)
    from "1.IH" [OF False this] False show ?thesis
      by (subst str_nat.simps) (simp add: w)
  qed
qed


lemma foldl_digits:
  "foldl (\<lambda>acc c. 10 * acc + digit_val c) a s
     = a * 10 ^ length s + foldl (\<lambda>acc c. 10 * acc + digit_val c) 0 s"
proof (induction s arbitrary: a)
  case Nil
  then show ?case by simp
next
  case (Cons c s)
  have "foldl (\<lambda>acc c. 10 * acc + digit_val c) a (c # s)
      = foldl (\<lambda>acc c. 10 * acc + digit_val c) (10 * a + digit_val c) s"
    by simp
  also have "\<dots> = (10 * a + digit_val c) * 10 ^ length s
      + foldl (\<lambda>acc c. 10 * acc + digit_val c) 0 s"
    by (rule Cons.IH)
  finally have l: "foldl (\<lambda>acc c. 10 * acc + digit_val c) a (c # s)
      = (10 * a + digit_val c) * 10 ^ length s
        + foldl (\<lambda>acc c. 10 * acc + digit_val c) 0 s" .
  have "foldl (\<lambda>acc c. 10 * acc + digit_val c) 0 (c # s)
      = foldl (\<lambda>acc c. 10 * acc + digit_val c) (digit_val c) s"
    by simp
  also have "\<dots> = digit_val c * 10 ^ length s
      + foldl (\<lambda>acc c. 10 * acc + digit_val c) 0 s"
    by (rule Cons.IH)
  finally have r: "foldl (\<lambda>acc c. 10 * acc + digit_val c) 0 (c # s)
      = digit_val c * 10 ^ length s + foldl (\<lambda>acc c. 10 * acc + digit_val c) 0 s" .
  show ?case
    unfolding l r by (simp add: algebra_simps)
qed

lemma nat_of_digits_append:
  "nat_of_digits (s @ t) = nat_of_digits s * 10 ^ length t + nat_of_digits t"
  unfolding nat_of_digits_def foldl_append
  by (rule foldl_digits)

lemma digit_val_zero: "digit_val (CHR ''0'') = 0"
  by (simp add: digit_val_def)

lemma is_digit_zero: "is_digit (CHR ''0'')"
  by (simp add: is_digit_def)

lemma nat_of_digits_Cons:
  "nat_of_digits (c # s) = digit_val c * 10 ^ length s + nat_of_digits s"
  using nat_of_digits_append [of "[c]" s] by (simp add: nat_of_digits_def)

lemma nat_of_digits_zeros: "nat_of_digits (replicate n (CHR ''0'')) = 0"
proof (induction n)
  case 0
  then show ?case by (simp add: nat_of_digits_def)
next
  case (Suc n)
  then show ?case
    by (simp add: nat_of_digits_Cons digit_val_zero)
qed

lemma nat_of_digits_rjust:
  "nat_of_digits (rjust w (CHR ''0'') s) = nat_of_digits s"
  by (simp add: rjust_def nat_of_digits_append nat_of_digits_zeros)

lemma rjust_digits: "list_all is_digit s \<Longrightarrow> list_all is_digit (rjust w (CHR ''0'') s)"
  using is_digit_zero by (auto simp: rjust_def list_all_iff)

lemma rjust_nonempty: "s \<noteq> [] \<Longrightarrow> rjust w c s \<noteq> []"
  by (simp add: rjust_def)

lemma length_rjust: "length s \<le> w \<Longrightarrow> length (rjust w c s) = w"
  by (simp add: rjust_def)

text \<open>Trailing zeros do not change the value of a decimal fraction.\<close>

lemma strip_zeros_decomp: "\<exists>j. s = strip_zeros s @ replicate j (CHR ''0'')"
proof -
  define tk where "tk = takeWhile (\<lambda>c. c = CHR ''0'') (rev s)"
  define dr where "dr = dropWhile (\<lambda>c. c = CHR ''0'') (rev s)"
  have "\<forall>c\<in>set tk. c = CHR ''0''"
    unfolding tk_def by (auto dest: set_takeWhileD)
  then have tk: "tk = replicate (length tk) (CHR ''0'')"
    by (simp add: replicate_length_same)
  have "rev s = tk @ dr"
    unfolding tk_def dr_def by simp
  then have "rev (rev s) = rev (tk @ dr)"
    by (rule arg_cong)
  then have "s = rev dr @ rev tk" by simp
  also have "rev tk = replicate (length tk) (CHR ''0'')"
    by (subst tk) simp
  finally have "s = strip_zeros s @ replicate (length tk) (CHR ''0'')"
    by (simp add: strip_zeros_def dr_def)
  then show ?thesis by blast
qed

lemma strip_zeros_value:
  "real (nat_of_digits (strip_zeros s)) / 10 ^ length (strip_zeros s)
     = real (nat_of_digits s) / 10 ^ length s"
proof -
  obtain j where j: "s = strip_zeros s @ replicate j (CHR ''0'')"
    using strip_zeros_decomp by blast
  have "nat_of_digits s = nat_of_digits (strip_zeros s) * 10 ^ j"
    by (subst j) (simp add: nat_of_digits_append nat_of_digits_zeros)
  moreover have "length s = length (strip_zeros s) + j"
    by (subst j) simp
  ultimately show ?thesis
    by (simp add: power_add)
qed

lemma strip_zeros_digits: "list_all is_digit s \<Longrightarrow> list_all is_digit (strip_zeros s)"
proof -
  assume a: "list_all is_digit s"
  obtain j where j: "s = strip_zeros s @ replicate j (CHR ''0'')"
    using strip_zeros_decomp by blast
  from a have "list_all is_digit (strip_zeros s @ replicate j (CHR ''0''))"
    by (subst (asm) j)
  then show ?thesis by simp
qed


lemma float_unsigned_digits:
  assumes "list_all is_digit s" and "s \<noteq> []"
  shows "float_unsigned s = Inr (real (nat_of_digits s))"
proof -
  have tw: "takeWhile is_digit s = s" and dw: "dropWhile is_digit s = []"
    using assms(1) by (simp_all add: list_all_iff)
  show ?thesis
    unfolding float_unsigned_def Let_def tw dw using assms(2) by simp
qed

lemma py_float_digits:
  assumes "list_all is_digit s" and "s \<noteq> []"
  shows "py_float s = Inr (real (nat_of_digits s))"
proof -
  from assms obtain c cs where s: "s = c # cs" by (cases s) auto
  with assms(1) have "is_digit c" by simp
  then have "c \<noteq> CHR ''-''" "c \<noteq> CHR ''+''" by (rule is_digit_props)+
  then have "py_float s = float_unsigned s"
    by (simp add: py_float_def s)
  with float_unsigned_digits [OF assms] show ?thesis by simp
qed

lemma float_unsigned_point:
  assumes "list_all is_digit ip" and "list_all is_digit fp" and "ip \<noteq> []"
  shows "float_unsigned (ip @ CHR ''.'' # fp)
           = Inr (real (nat_of_digits ip) + real (nat_of_digits fp) / 10 ^ length fp)"
proof -
  have nd: "\<not> is_digit (CHR ''.'')" by (simp add: is_digit_def)
  have tw: "takeWhile is_digit (ip @ CHR ''.'' # fp) = ip"
    using assms(1) nd by (simp add: takeWhile_append2 list_all_iff)
  have dw: "dropWhile is_digit (ip @ CHR ''.'' # fp) = CHR ''.'' # fp"
    using assms(1) nd by (simp add: dropWhile_append2 list_all_iff)
  show ?thesis
    unfolding float_unsigned_def Let_def tw dw using assms(2,3) by simp
qed

lemma py_float_point:
  assumes "list_all is_digit ip" and "list_all is_digit fp" and "ip \<noteq> []"
  shows "py_float (ip @ CHR ''.'' # fp)
           = Inr (real (nat_of_digits ip) + real (nat_of_digits fp) / 10 ^ length fp)"
proof -
  from assms obtain c cs where s: "ip = c # cs" by (cases ip) auto
  with assms(1) have "is_digit c" by simp
  then have "c \<noteq> CHR ''-''" "c \<noteq> CHR ''+''" by (rule is_digit_props)+
  then have "py_float (ip @ CHR ''.'' # fp) = float_unsigned (ip @ CHR ''.'' # fp)"
    by (simp add: py_float_def s)
  with float_unsigned_point [OF assms] show ?thesis by simp
qed

lemma split_no_sep: "sep \<notin> set s \<Longrightarrow> split sep s = [s]"
  by (induction s) auto

lemma split_field: "sep \<notin> set s \<Longrightarrow> split sep (s @ sep # t) = s # split sep t"
  by (induction s) auto

lemma digits_no_space: "list_all is_digit s \<Longrightarrow> CHR '' '' \<notin> set s"
  by (auto simp: list_all_iff dest: is_digit_props(1))

text \<open>Rounding to the nearest integer.\<close>

lemma round_half_even_near: "\<bar>real_of_int (round_half_even y) - y\<bar> \<le> 1 / 2"
  unfolding round_half_even_def Let_def by (simp; linarith)

lemma round_half_even_nonneg: "0 \<le> y \<Longrightarrow> 0 \<le> round_half_even y"
  unfolding round_half_even_def Let_def by (simp; linarith)


lemma DmsToDd_fields:
  assumes sp: "CHR '' '' \<notin> set t1" "CHR '' '' \<notin> set t2" "CHR '' '' \<notin> set t3"
      "CHR '' '' \<notin> set t4"
    and fl: "py_float t1 = Inr d" "py_float t2 = Inr m" "py_float t3 = Inr s"
  shows "DmsToDd (t1 @ '' '' @ t2 @ '' '' @ t3 @ '' '' @ t4)
     = Inr (if t4 = ''S'' \<or> t4 = ''W'' then (d + m / 60 + s / 3600) * (- 1)
            else d + m / 60 + s / 3600)"
proof -
  have "split (CHR '' '') (t1 @ '' '' @ t2 @ '' '' @ t3 @ '' '' @ t4) = [t1, t2, t3, t4]"
    using sp by (simp add: split_field split_no_sep)
  then show ?thesis
    unfolding DmsToDd_def Let_def
    by (simp add: py_index_def fl)
qed

lemma real_div_mod:
  assumes "0 < d"
  shows "real (k div d) + real (k mod d) / real d = real k / real d"
proof -
  have "real k = real (k div d * d + k mod d)" by simp
  also have "\<dots> = real (k div d) * real d + real (k mod d)"
    by (simp only: of_nat_add of_nat_mult)
  finally have "real k / real d = (real (k div d) * real d + real (k mod d)) / real d"
    by simp
  also have "\<dots> = real (k div d) + real (k mod d) / real d"
    using assms by (simp add: add_divide_distrib)
  finally show ?thesis by simp
qed

lemma float_str_4:
  "py_float (float_str 4 (real k / 10 ^ 4)) = Inr (real k / 10 ^ 4)
   \<and> CHR '' '' \<notin> set (float_str 4 (real k / 10 ^ 4))"
proof -
  define ip where "ip = str_nat (k div 10 ^ 4)"
  define raw where "raw = rjust 4 (CHR ''0'') (str_nat (k mod 10 ^ 4))"
  define fp where "fp = (if strip_zeros raw = [] then ''0'' else strip_zeros raw)"
  have "\<bar>real k / 10 ^ 4\<bar> * 10 ^ 4 = real k" by simp
  then have kk: "nat \<lfloor>\<bar>real k / 10 ^ 4\<bar> * 10 ^ 4\<rfloor> = k" by simp
  have nn: "\<not> real k / 10 ^ 4 < 0" by simp
  have fs: "float_str 4 (real k / 10 ^ 4) = ip @ CHR ''.'' # fp"
    unfolding float_str_def Let_def kk ip_def fp_def raw_def using nn by simp
  have ipd: "list_all is_digit ip" "ip \<noteq> []"
    unfolding ip_def by (rule str_nat_digits str_nat_nonempty)+
  have rawd: "list_all is_digit raw"
    unfolding raw_def by (intro rjust_digits str_nat_digits)
  have "k mod 10 ^ 4 < 10 ^ Suc 3" by simp
  then have "length (str_nat (k mod 10 ^ 4)) \<le> Suc 3" by (rule length_str_nat)
  then have rawl: "length raw = 4"
    unfolding raw_def by (intro length_rjust) simp
  have rawv: "nat_of_digits raw = k mod 10 ^ 4"
    unfolding raw_def by (simp add: nat_of_digits_rjust nat_of_digits_str_nat)
  have fpd: "list_all is_digit fp"
    unfolding fp_def using strip_zeros_digits [OF rawd] by (simp add: is_digit_zero)
  have "real (nat_of_digits fp) / 10 ^ length fp
      = real (nat_of_digits (strip_zeros raw)) / 10 ^ length (strip_zeros raw)"
    unfolding fp_def by (simp add: nat_of_digits_def digit_val_zero)
  also have "\<dots> = real (k mod 10 ^ 4) / 10 ^ 4"
    unfolding strip_zeros_value rawv rawl ..
  finally have fpv: "real (nat_of_digits fp) / 10 ^ length fp = real (k mod 10 ^ 4) / 10 ^ 4" .
  have "real (k div 10 ^ 4) + real (k mod 10 ^ 4) / 10 ^ 4 = real k / 10 ^ 4"
    using real_div_mod [of "10 ^ 4" k] by simp
  then have "py_float (float_str 4 (real k / 10 ^ 4)) = Inr (real k / 10 ^ 4)"
    unfolding fs py_float_point [OF ipd(1) fpd ipd(2)] fpv
    by (simp add: ip_def nat_of_digits_str_nat)
  moreover have "CHR '' '' \<notin> set (float_str 4 (real k / 10 ^ 4))"
    unfolding fs using digits_no_space [OF ipd(1)] digits_no_space [OF fpd] by simp
  ultimately show ?thesis by simp
qed


text \<open>
  The degree field is a string of digits, padded with zeros on the left.
\<close>

lemma py_float_padded:
  "py_float (rjust w (CHR ''0'') (str_nat n)) = Inr (real n)"
proof -
  have "list_all is_digit (rjust w (CHR ''0'') (str_nat n))"
    by (intro rjust_digits str_nat_digits)
  moreover have "rjust w (CHR ''0'') (str_nat n) \<noteq> []"
    by (intro rjust_nonempty str_nat_nonempty)
  ultimately have "py_float (rjust w (CHR ''0'') (str_nat n))
      = Inr (real (nat_of_digits (rjust w (CHR ''0'') (str_nat n))))"
    by (rule py_float_digits)
  then show ?thesis
    by (simp add: nat_of_digits_rjust nat_of_digits_str_nat)
qed

lemma py_float_str_nat: "py_float (str_nat n) = Inr (real n)"
  using py_float_digits [OF str_nat_digits str_nat_nonempty, of n]
  by (simp add: nat_of_digits_str_nat)

text \<open>
  C3.  For every decimal-degree value \<open>x\<close>, on either axis, \<^verbatim>\<open>DmsToDd\<close> accepts the
  string that \<^verbatim>\<open>DdToDms\<close> writes for \<open>x\<close> and returns a value within \<open>10^-4\<close> degrees of
  \<open>x\<close>.  This holds for all \<open>x\<close>, so in particular for the latitudes in \<open>[-90, 90]\<close> and
  the longitudes in \<open>[-180, 180]\<close>.
\<close>

theorem DmsToDd_DdToDms_roundtrip:
  "\<exists>y. DmsToDd (DdToDms x lat_or_lon) = Inr y \<and> \<bar>y - x\<bar> \<le> 1 / 10 ^ 4"
proof -
  define deg where "deg = py_int \<bar>x\<bar>"
  define mins where "mins = py_int ((\<bar>x\<bar> - of_int deg) * 60)"
  define sec where "sec = (\<bar>x\<bar> - of_int deg - of_int mins / 60) * 3600"
  define k where "k = nat (round_half_even (sec * 10 ^ 4))"
  define t1 where "t1 = (case lat_or_lon of
                           Lat \<Rightarrow> rjust 2 (CHR ''0'') (str_nat (nat deg))
                         | Lon \<Rightarrow> rjust 3 (CHR ''0'') (str_nat (nat deg)))"
  define t4 where "t4 = (case lat_or_lon of
                           Lat \<Rightarrow> (if x < 0 then ''S'' else ''N'')
                         | Lon \<Rightarrow> (if x < 0 then ''W'' else ''E''))"
  have deg: "deg = \<lfloor>\<bar>x\<bar>\<rfloor>" by (simp add: deg_def py_int_def)
  then have deg0: "0 \<le> deg" by simp
  have fr: "0 \<le> (\<bar>x\<bar> - of_int deg) * 60"
    unfolding deg by (simp add: of_int_floor_le)
  then have mins: "mins = \<lfloor>(\<bar>x\<bar> - of_int deg) * 60\<rfloor>"
    by (simp add: mins_def py_int_def)
  with fr have mins0: "0 \<le> mins" by simp
  have "of_int mins \<le> (\<bar>x\<bar> - of_int deg) * 60"
    unfolding mins by (rule of_int_floor_le)
  then have sec0: "0 \<le> sec" by (simp add: sec_def)
  have rh: "0 \<le> round_half_even (sec * 10 ^ 4)"
    using sec0 by (intro round_half_even_nonneg) simp
  then have pr: "py_round sec 4 = real k / 10 ^ 4"
    by (simp add: py_round_def k_def)
  have sd: "str_int deg = str_nat (nat deg)" and sm: "str_int mins = str_nat (nat mins)"
    using deg0 mins0 by (simp_all add: str_int_def)
  have D: "DdToDms x lat_or_lon
      = t1 @ '' '' @ str_nat (nat mins) @ '' '' @ float_str 4 (real k / 10 ^ 4) @ '' '' @ t4"
    unfolding DdToDms_def Let_def deg_def [symmetric]
    unfolding mins_def [symmetric]
    unfolding sec_def [symmetric] pr sd sm t1_def t4_def
    by (cases lat_or_lon) simp_all
  have f1: "py_float t1 = Inr (real (nat deg))"
    unfolding t1_def by (cases lat_or_lon) (simp_all add: py_float_padded)
  have s1: "CHR '' '' \<notin> set t1"
    unfolding t1_def
    by (cases lat_or_lon) (simp_all add: digits_no_space rjust_digits str_nat_digits)
  have s4: "CHR '' '' \<notin> set t4"
    unfolding t4_def by (cases lat_or_lon) simp_all
  have neg: "(t4 = ''S'' \<or> t4 = ''W'') = (x < 0)"
    unfolding t4_def by (cases lat_or_lon) simp_all
  define dd where "dd = real (nat deg) + real (nat mins) / 60 + (real k / 10 ^ 4) / 3600"
  have R: "DmsToDd (DdToDms x lat_or_lon) = Inr (if x < 0 then dd * (- 1) else dd)"
    unfolding D dd_def
    using DmsToDd_fields [OF s1 digits_no_space [OF str_nat_digits] conjunct2 [OF float_str_4] s4
        f1 py_float_str_nat conjunct1 [OF float_str_4], of "nat mins" k]
    by (simp only: neg)
  have "\<bar>real_of_int (round_half_even (sec * 10 ^ 4)) - sec * 10 ^ 4\<bar> \<le> 1 / 2"
    by (rule round_half_even_near)
  then have "\<bar>real k - sec * 10 ^ 4\<bar> \<le> 1 / 2"
    using rh by (simp add: k_def)
  then have "\<bar>real k / 10 ^ 4 - sec\<bar> \<le> 1 / 2 / 10 ^ 4"
    by (simp add: abs_le_iff field_simps)
  then have le: "\<bar>real k / 10 ^ 4 - sec\<bar> / 3600 \<le> 1 / 2 / 10 ^ 4 / 3600"
    by (rule divide_right_mono) simp
  have "(real k / 10 ^ 4) / 3600 - sec / 3600 = (real k / 10 ^ 4 - sec) / 3600"
    by (simp add: diff_divide_distrib)
  then have "\<bar>(real k / 10 ^ 4) / 3600 - sec / 3600\<bar> = \<bar>real k / 10 ^ 4 - sec\<bar> / 3600"
    by (simp only: abs_divide abs_numeral)
  also note le
  also have "(1::real) / 2 / 10 ^ 4 / 3600 \<le> 1 / 10 ^ 4" by simp
  finally have near: "\<bar>(real k / 10 ^ 4) / 3600 - sec / 3600\<bar> \<le> 1 / 10 ^ 4" .
  have ax: "\<bar>x\<bar> = real (nat deg) + real (nat mins) / 60 + sec / 3600"
    using deg0 mins0 by (simp add: sec_def diff_divide_distrib)
  have "\<bar>dd - \<bar>x\<bar>\<bar> \<le> 1 / 10 ^ 4"
    unfolding dd_def ax using near by simp
  moreover have "\<bar>(if x < 0 then dd * (- 1) else dd) - x\<bar> = \<bar>dd - \<bar>x\<bar>\<bar>"
  proof (cases "x < 0")
    case True
    then have "(if x < 0 then dd * (- 1) else dd) - x = - (dd - \<bar>x\<bar>)" by simp
    then show ?thesis by (simp only: abs_minus_cancel)
  next
    case False
    then have "(if x < 0 then dd * (- 1) else dd) - x = dd - \<bar>x\<bar>" by simp
    then show ?thesis by (simp only:)
  qed
  ultimately have "\<bar>(if x < 0 then dd * (- 1) else dd) - x\<bar> \<le> 1 / 10 ^ 4"
    by (simp only:)
  with R show ?thesis by blast
qed

theorem DmsToDd_DdToDms_roundtrip_witness:
  "\<exists>y. DmsToDd (DdToDms (- 1.71792) Lon) = Inr y \<and> \<bar>y - (- 1.71792)\<bar> \<le> 1 / 10 ^ 4"
  using DmsToDd_DdToDms_roundtrip [of "- 1.71792" Lon] .

subsection \<open>The worked example of the national grid\<close>

text \<open>
  An enclosure is a pair of bounds \<open>l \<le> x \<and> x \<le> h\<close>.  The rules below carry enclosures
  through the arithmetic operations; the bounds of the result are checked by evaluation
  of rational numbers.
\<close>

lemma iv_add:
  fixes a b :: real
  assumes "la \<le> a \<and> a \<le> ha" and "lb \<le> b \<and> b \<le> hb"
    and "l \<le> la + lb" and "ha + hb \<le> h"
  shows "l \<le> a + b \<and> a + b \<le> h"
  using assms by linarith

lemma iv_sub:
  fixes a b :: real
  assumes "la \<le> a \<and> a \<le> ha" and "lb \<le> b \<and> b \<le> hb"
    and "l \<le> la - hb" and "ha - lb \<le> h"
  shows "l \<le> a - b \<and> a - b \<le> h"
  using assms by linarith

lemma scale_between:
  fixes c x l h :: real
  assumes "l \<le> x" and "x \<le> h"
  shows "c * x \<le> max (c * l) (c * h)" and "min (c * l) (c * h) \<le> c * x"
proof -
  show "c * x \<le> max (c * l) (c * h)"
  proof (cases "0 \<le> c")
    case True
    then have "c * x \<le> c * h" using assms(2) by (rule mult_left_mono [rotated])
    then show ?thesis by simp
  next
    case False
    then have "c * x \<le> c * l" using assms(1) by (intro mult_left_mono_neg) simp_all
    then show ?thesis by simp
  qed
  show "min (c * l) (c * h) \<le> c * x"
  proof (cases "0 \<le> c")
    case True
    then have "c * l \<le> c * x" using assms(1) by (rule mult_left_mono [rotated])
    then show ?thesis by simp
  next
    case False
    then have "c * h \<le> c * x" using assms(2) by (intro mult_left_mono_neg) simp_all
    then show ?thesis by simp
  qed
qed

lemma iv_mul:
  fixes a b :: real
  assumes a: "la \<le> a \<and> a \<le> ha" and b: "lb \<le> b \<and> b \<le> hb"
    and l: "l \<le> la * lb" "l \<le> la * hb" "l \<le> ha * lb" "l \<le> ha * hb"
    and h: "la * lb \<le> h" "la * hb \<le> h" "ha * lb \<le> h" "ha * hb \<le> h"
  shows "l \<le> a * b \<and> a * b \<le> h"
proof
  have "min (b * la) (b * ha) \<le> b * a"
    using a by (intro scale_between) simp_all
  moreover have "min (la * lb) (la * hb) \<le> la * b" "min (ha * lb) (ha * hb) \<le> ha * b"
    using b by (intro scale_between; simp)+
  ultimately show "l \<le> a * b"
    using l by (simp add: mult.commute min_def split: if_splits)
  have "b * a \<le> max (b * la) (b * ha)"
    using a by (intro scale_between) simp_all
  moreover have "la * b \<le> max (la * lb) (la * hb)" "ha * b \<le> max (ha * lb) (ha * hb)"
    using b by (intro scale_between; simp)+
  ultimately show "a * b \<le> h"
    using h by (simp add: mult.commute max_def split: if_splits)
qed

lemma iv_inverse:
  fixes b :: real
  assumes "lb \<le> b \<and> b \<le> hb" and "0 < lb"
  shows "1 / hb \<le> 1 / b \<and> 1 / b \<le> 1 / lb"
  using assms by (simp add: frac_le)

lemma iv_div:
  fixes a b :: real
  assumes a: "la \<le> a \<and> a \<le> ha" and b: "lb \<le> b \<and> b \<le> hb" and pos: "0 < lb"
    and l: "l \<le> la / hb" "l \<le> la / lb" "l \<le> ha / hb" "l \<le> ha / lb"
    and h: "la / hb \<le> h" "la / lb \<le> h" "ha / hb \<le> h" "ha / lb \<le> h"
  shows "l \<le> a / b \<and> a / b \<le> h"
proof -
  have "l \<le> a * (1 / b) \<and> a * (1 / b) \<le> h"
    using l h by (intro iv_mul [OF a iv_inverse [OF b pos]]) simp_all
  then show ?thesis by simp
qed

lemma iv_power_mul:
  fixes x :: real
  assumes m: "ml \<le> x ^ m \<and> x ^ m \<le> mh" and n: "nl \<le> x ^ n \<and> x ^ n \<le> nh"
    and pos: "0 \<le> ml" "0 \<le> nl" and k: "k = m + n"
    and l: "l \<le> ml * nl" and h: "mh * nh \<le> h"
  shows "l \<le> x ^ k \<and> x ^ k \<le> h"
proof
  have "ml * nl \<le> x ^ m * x ^ n"
    using m n pos by (intro mult_mono) simp_all
  with l show "l \<le> x ^ k" by (simp add: k power_add)
  have "x ^ m * x ^ n \<le> mh * nh"
    using m n pos by (intro mult_mono) simp_all
  with h show "x ^ k \<le> h" by (simp add: k power_add)
qed

lemma iv_sqrt:
  fixes w :: real
  assumes "lw \<le> w \<and> w \<le> hw" and "0 \<le> rl" and "rl * rl \<le> lw" and "0 \<le> rh"
    and "hw \<le> rh * rh"
  shows "rl \<le> sqrt w \<and> sqrt w \<le> rh"
proof
  have "rl\<^sup>2 \<le> w" using assms(1,3) by (simp add: power2_eq_square)
  then show "rl \<le> sqrt w" by (rule real_le_rsqrt)
  have "w \<le> rh\<^sup>2" using assms(1,5) by (simp add: power2_eq_square)
  then show "sqrt w \<le> rh" using assms(4) by (intro real_le_lsqrt) simp_all
qed

text \<open>The sine by its Taylor polynomial of degree \<open>11\<close>, with the remainder of order \<open>13\<close>.\<close>

lemma sin_coeff_values:
  "sin_coeff 0 = 0" "sin_coeff 1 = 1" "sin_coeff 2 = 0" "sin_coeff 3 = - 1 / 6"
  "sin_coeff 4 = 0" "sin_coeff 5 = 1 / 120" "sin_coeff 6 = 0" "sin_coeff 7 = - 1 / 5040"
  "sin_coeff 8 = 0" "sin_coeff 9 = 1 / 362880" "sin_coeff 10 = 0"
  "sin_coeff 11 = - 1 / 39916800" "sin_coeff 12 = 0" "sin_coeff (Suc 0) = 1"
  by (simp_all add: sin_coeff_def fact_numeral)

lemma sum_lessThan_13:
  fixes f :: "nat \<Rightarrow> real"
  shows "(\<Sum>m<13. f m)
      = f 0 + f 1 + f 2 + f 3 + f 4 + f 5 + f 6 + f 7 + f 8 + f 9 + f 10 + f 11 + f 12"
  by (simp add: eval_nat_numeral)

lemma sin_taylor_11:
  fixes x :: real
  shows "\<bar>sin x - (x - x ^ 3 / 6 + x ^ 5 / 120 - x ^ 7 / 5040 + x ^ 9 / 362880 - x ^ 11 / 39916800)\<bar>
           \<le> \<bar>x\<bar> ^ 13 / 6227020800"
proof -
  have "(\<Sum>m<13. sin_coeff m * x ^ m)
      = sin_coeff 0 * x ^ 0 + sin_coeff 1 * x ^ 1 + sin_coeff 2 * x ^ 2 + sin_coeff 3 * x ^ 3
        + sin_coeff 4 * x ^ 4 + sin_coeff 5 * x ^ 5 + sin_coeff 6 * x ^ 6 + sin_coeff 7 * x ^ 7
        + sin_coeff 8 * x ^ 8 + sin_coeff 9 * x ^ 9 + sin_coeff 10 * x ^ 10
        + sin_coeff 11 * x ^ 11 + sin_coeff 12 * x ^ 12"
    by (rule sum_lessThan_13)
  also have "\<dots>
      = x - x ^ 3 / 6 + x ^ 5 / 120 - x ^ 7 / 5040 + x ^ 9 / 362880 - x ^ 11 / 39916800"
    unfolding sin_coeff_values by simp
  finally have "(\<Sum>m<13. sin_coeff m * x ^ m)
      = x - x ^ 3 / 6 + x ^ 5 / 120 - x ^ 7 / 5040 + x ^ 9 / 362880 - x ^ 11 / 39916800" .
  moreover have "(fact 13 :: real) = 6227020800"
    by (simp add: fact_numeral)
  then have "inverse (fact 13) * \<bar>x\<bar> ^ 13 = \<bar>x\<bar> ^ 13 / 6227020800"
    by (simp only: inverse_eq_divide times_divide_eq_left mult_1)
  ultimately show ?thesis
    using Maclaurin_sin_bound [of x 13] by (simp only:)
qed

lemma iv_sin_terms:
  fixes x :: real
  assumes x: "lo \<le> x \<and> x \<le> hi" and lo: "0 \<le> lo"
    and p3: "l3 \<le> x ^ 3 \<and> x ^ 3 \<le> h3" and p5: "l5 \<le> x ^ 5 \<and> x ^ 5 \<le> h5"
    and p7: "l7 \<le> x ^ 7 \<and> x ^ 7 \<le> h7" and p9: "l9 \<le> x ^ 9 \<and> x ^ 9 \<le> h9"
    and p11: "l11 \<le> x ^ 11 \<and> x ^ 11 \<le> h11" and p13: "l13 \<le> x ^ 13 \<and> x ^ 13 \<le> h13"
    and l: "l \<le> lo - h3 / 6 + l5 / 120 - h7 / 5040 + l9 / 362880 - h11 / 39916800
               - h13 / 6227020800"
    and h: "hi - l3 / 6 + h5 / 120 - l7 / 5040 + h9 / 362880 - l11 / 39916800
               + h13 / 6227020800 \<le> h"
  shows "l \<le> sin x \<and> sin x \<le> h"
proof -
  have "\<bar>x\<bar> = x" using x lo by simp
  with sin_taylor_11 [of x]
  have "\<bar>sin x - (x - x ^ 3 / 6 + x ^ 5 / 120 - x ^ 7 / 5040 + x ^ 9 / 362880
           - x ^ 11 / 39916800)\<bar> \<le> x ^ 13 / 6227020800"
    by (simp only:)
  then have "sin x - (x - x ^ 3 / 6 + x ^ 5 / 120 - x ^ 7 / 5040 + x ^ 9 / 362880
           - x ^ 11 / 39916800) \<le> x ^ 13 / 6227020800
       \<and> - (sin x - (x - x ^ 3 / 6 + x ^ 5 / 120 - x ^ 7 / 5040 + x ^ 9 / 362880
           - x ^ 11 / 39916800)) \<le> x ^ 13 / 6227020800"
    by (simp only: abs_le_iff)
  with x p3 p5 p7 p9 p11 p13 l h show ?thesis
    by linarith
qed

lemma cos_half_angle: "cos x = 1 - 2 * sin (x / 2) ^ 2" for x :: real
  using cos_double_sin [of "x / 2"] by simp

lemma powr_minus_half: "0 < x \<Longrightarrow> x powr (- 0.5) = 1 / sqrt x" for x :: real
  by (simp add: powr_minus_divide powr_half_sqrt)

lemma powr_minus_three_halves: "0 < x \<Longrightarrow> x powr (- 1.5) = 1 / (x * sqrt x)" for x :: real
proof -
  assume x: "0 < x"
  have "x powr 1.5 = x powr (1 + 1 / 2)" by simp
  also have "\<dots> = x powr 1 * x powr (1 / 2)" by (rule powr_add)
  also have "\<dots> = x * sqrt x" using x by (simp add: powr_half_sqrt)
  finally show ?thesis by (simp add: powr_minus_divide)
qed

text \<open>The number \<open>pi\<close>: the sine is increasing up to a quarter turn and is \<open>1/2\<close> at \<open>pi/6\<close>.\<close>

lemma iv_pi: "3.141592653 \<le> pi \<and> pi \<le> 3.1415926536"
proof -
  have q: "1 \<le> pi / 2"
    using pi_ge_two by simp
  have s: "sin (pi / 6) = 1 / 2"
    by (rule sin_30)
  have p6: "0 \<le> pi / 6" "pi / 6 \<le> 1"
    using pi_less_4 by simp_all
  have f1: "0.5235987755 \<le> (0.5235987755 :: real) \<and> (0.5235987755 :: real) \<le> 0.5235987755"
    by simp
  have f2: "0.5235987755 \<le> (0.5235987755 :: real) ^ 1 \<and> (0.5235987755 :: real) ^ 1 \<le> 0.5235987755"
    using f1 by simp
  have f3: "0.274155677705 \<le> (0.5235987755 :: real) ^ 2 \<and> (0.5235987755 :: real) ^ 2 \<le> 0.274155677706"
    by (rule iv_power_mul [OF f2 f2]) simp_all
  have f4: "0.143547577142 \<le> (0.5235987755 :: real) ^ 3 \<and> (0.5235987755 :: real) ^ 3 \<le> 0.143547577144"
    by (rule iv_power_mul [OF f3 f2]) simp_all
  have f5: "0.0393543832942 \<le> (0.5235987755 :: real) ^ 5 \<and> (0.5235987755 :: real) ^ 5 \<le> 0.039354383295"
    by (rule iv_power_mul [OF f4 f3]) simp_all
  have f6: "0.0107892276226 \<le> (0.5235987755 :: real) ^ 7 \<and> (0.5235987755 :: real) ^ 7 \<le> 0.010789227623"
    by (rule iv_power_mul [OF f5 f3]) simp_all
  have f7: "0.00295792801078 \<le> (0.5235987755 :: real) ^ 9 \<and> (0.5235987755 :: real) ^ 9 \<le> 0.00295792801091"
    by (rule iv_power_mul [OF f6 f3]) simp_all
  have f8: "0.000810932758397 \<le> (0.5235987755 :: real) ^ 11 \<and> (0.5235987755 :: real) ^ 11 \<le> 0.000810932758437"
    by (rule iv_power_mul [OF f7 f3]) simp_all
  have f9: "0.000222321819951 \<le> (0.5235987755 :: real) ^ 13 \<and> (0.5235987755 :: real) ^ 13 \<le> 0.000222321819964"
    by (rule iv_power_mul [OF f8 f3]) simp_all
  have f10: "0.499999999914 \<le> sin (0.5235987755 :: real) \<and> sin (0.5235987755 :: real) \<le> 0.499999999916"
    by (rule iv_sin_terms [OF f1 _ f4 f5 f6 f7 f8 f9]) simp_all
  have f11: "0.5235987756 \<le> (0.5235987756 :: real) \<and> (0.5235987756 :: real) \<le> 0.5235987756"
    by simp
  have f12: "0.5235987756 \<le> (0.5235987756 :: real) ^ 1 \<and> (0.5235987756 :: real) ^ 1 \<le> 0.5235987756"
    using f11 by simp
  have f13: "0.274155677809 \<le> (0.5235987756 :: real) ^ 2 \<and> (0.5235987756 :: real) ^ 2 \<le> 0.27415567781"
    by (rule iv_power_mul [OF f12 f12]) simp_all
  have f14: "0.143547577224 \<le> (0.5235987756 :: real) ^ 3 \<and> (0.5235987756 :: real) ^ 3 \<le> 0.143547577226"
    by (rule iv_power_mul [OF f13 f12]) simp_all
  have f15: "0.0393543833316 \<le> (0.5235987756 :: real) ^ 5 \<and> (0.5235987756 :: real) ^ 5 \<le> 0.0393543833324"
    by (rule iv_power_mul [OF f14 f13]) simp_all
  have f16: "0.010789227637 \<le> (0.5235987756 :: real) ^ 7 \<and> (0.5235987756 :: real) ^ 7 \<le> 0.0107892276373"
    by (rule iv_power_mul [OF f15 f13]) simp_all
  have f17: "0.00295792801585 \<le> (0.5235987756 :: real) ^ 9 \<and> (0.5235987756 :: real) ^ 9 \<le> 0.00295792801596"
    by (rule iv_power_mul [OF f16 f13]) simp_all
  have f18: "0.000810932760095 \<le> (0.5235987756 :: real) ^ 11 \<and> (0.5235987756 :: real) ^ 11 \<le> 0.000810932760129"
    by (rule iv_power_mul [OF f17 f13]) simp_all
  have f19: "0.000222321820501 \<le> (0.5235987756 :: real) ^ 13 \<and> (0.5235987756 :: real) ^ 13 \<le> 0.000222321820512"
    by (rule iv_power_mul [OF f18 f13]) simp_all
  have f20: "0.500000000001 \<le> sin (0.5235987756 :: real) \<and> sin (0.5235987756 :: real) \<le> 0.500000000002"
    by (rule iv_sin_terms [OF f11 _ f14 f15 f16 f17 f18 f19]) simp_all
  have a: "sin (0.5235987755 :: real) < 1 / 2"
    using f10 by simp
  have b: "1 / 2 < sin (0.5235987756 :: real)"
    using f20 by simp
  have "0.5235987755 < pi / 6"
  proof (rule ccontr)
    assume "\<not> 0.5235987755 < pi / 6"
    then have "sin (pi / 6) \<le> sin 0.5235987755"
      using q by (intro sin_monotone_2pi_le) simp_all
    with a s show False by simp
  qed
  moreover have "pi / 6 < 0.5235987756"
  proof (rule ccontr)
    assume "\<not> pi / 6 < 0.5235987756"
    then have "sin 0.5235987756 \<le> sin (pi / 6)"
      using q p6 by (intro sin_monotone_2pi_le) simp_all
    with b s show False by simp
  qed
  ultimately show ?thesis by simp
qed

text \<open>
  C1.  \<^verbatim>\<open>LatLonToGridEastNorth(52.65757, 1.71792)\<close> returns an easting within one metre
  of \<open>651409.903\<close> and a northing within one metre of \<open>313177.270\<close>.  The proof
  encloses every local variable of the function between two decimal numbers, in the order
  in which the function computes them.
\<close>

theorem LatLonToGridEastNorth_example:
  "\<bar>fst (LatLonToGridEastNorth 52.65757 1.71792) - 651409.903\<bar> < 1
   \<and> \<bar>snd (LatLonToGridEastNorth 52.65757 1.71792) - 313177.270\<bar> < 1"
proof -
  define F0 :: real where "F0 = 0.9996012717"
  define lat_0 where "lat_0 = DegToRad 49"
  define lon_0 where "lon_0 = DegToRad (- 2)"
  define a :: real where "a = 6377563.396"
  define b :: real where "b = 6356256.909"
  define e2 where "e2 = Eccentricity1 a b"
  define lat where "lat = DegToRad 52.65757"
  define lon where "lon = DegToRad 1.71792"
  define n where "n = (a - b) / (a + b)"
  define v where "v = a * F0 * (1 - (e2 * sin lat ^ 2)) powr (- 0.5)"
  define p where "p = a * F0 * (1 - e2) * (1 - (e2 * sin lat ^ 2)) powr (- 1.5)"
  define n2 where "n2 = (v / p) - 1"
  define m1 where "m1 = (1 + n + ((5 / 4) * n ^ 2) + ((5 / 4) * n ^ 3)) * (lat - lat_0)"
  define m2_1 where "m2_1 = ((3 * n) + (3 * n ^ 2) + ((21 / 8) * n ^ 3))"
  define m2_2 where "m2_2 = sin (lat - lat_0)"
  define m2_3 where "m2_3 = cos (lat + lat_0)"
  define m2 where "m2 = m2_1 * m2_2 * m2_3"
  define m3_1 where "m3_1 = ((15 / 8) * n ^ 2) + ((15 / 8) * n ^ 3)"
  define m3_2 where "m3_2 = sin (2 * (lat - lat_0)) * cos (2 * (lat + lat_0))"
  define m3_3 where "m3_3 = (35 / 24) * n ^ 3 * sin (3 * (lat - lat_0)) * cos (3 * (lat + lat_0))"
  define m3 where "m3 = (m3_1 * m3_2) - m3_3"
  define m where "m = b * F0 * (m1 - m2 + m3)"
  define I where "I = m + (- 100000)"
  define II where "II = (v / 2) * sin lat * cos lat"
  define III where "III = (v / 24) * sin lat * cos lat ^ 3 * (5 - (tan lat ^ 2) + (9 * n2))"
  define IIIA where "IIIA = (v / 720) * sin lat * Cos5 lat * (61 - (58 * Tan2 lat) + Tan4 lat)"
  define IV where "IV = v * cos lat"
  define V where "V = (v / 6) * cos lat ^ 3 * ((v / p) - tan lat ^ 2)"
  define VI where "VI = (v / 120) * cos lat ^ 5
      * (5 - (18 * Tan2 lat) + Tan4 lat + (14 * n2) - (58 * Tan2 lat * n2))"
  define N where "N = I + (II * (lon - lon_0) ^ 2) + (III * (lon - lon_0) ^ 4)
      + (IIIA * (lon - lon_0) ^ 6)"
  define E where "E = 400000 + (IV * (lon - lon_0)) + (V * ((lon - lon_0) ^ 3) + (VI * ((lon - lon_0) ^ 5)))"
  have EN: "LatLonToGridEastNorth 52.65757 1.71792 = (E, N)"
    unfolding LatLonToGridEastNorth_def Let_def GetAiry1830_def prod.case
      E_def N_def VI_def V_def IV_def IIIA_def III_def II_def
      I_def m_def m3_def m3_3_def m3_2_def m3_1_def m2_def m2_3_def
      m2_2_def m2_1_def m1_def n2_def p_def v_def n_def lon_def
      lat_def e2_def b_def a_def lon_0_def lat_0_def F0_def
    ..
  have f1: "3.141592653 \<le> pi \<and> pi \<le> 3.1415926536"
    by (rule iv_pi)
  have f2: "52.65757 \<le> (52.65757 :: real) \<and> (52.65757 :: real) \<le> 52.65757"
    by simp
  have f3: "165.428635036 \<le> (52.65757 :: real) * pi \<and> (52.65757 :: real) * pi \<le> 165.428635069"
    by (rule iv_mul [OF f2 f1]) simp_all
  have f4: "180 \<le> (180 :: real) \<and> (180 :: real) \<le> 180"
    by simp
  have f5: "0.919047972422 \<le> ((52.65757 :: real) * pi) / (180 :: real) \<and> ((52.65757 :: real) * pi) / (180 :: real) \<le> 0.919047972606"
    by (rule iv_div [OF f3 f4]) simp_all
  have f6: "0.919047972422 \<le> lat \<and> lat \<le> 0.919047972606"
    unfolding lat_def DegToRad_def by (rule f5)
  have f7: "49 \<le> (49 :: real) \<and> (49 :: real) \<le> 49"
    by simp
  have f8: "153.938039997 \<le> (49 :: real) * pi \<and> (49 :: real) * pi \<le> 153.938040027"
    by (rule iv_mul [OF f7 f1]) simp_all
  have f9: "180 \<le> (180 :: real) \<and> (180 :: real) \<le> 180"
    by simp
  have f10: "0.855211333316 \<le> ((49 :: real) * pi) / (180 :: real) \<and> ((49 :: real) * pi) / (180 :: real) \<le> 0.855211333484"
    by (rule iv_div [OF f8 f9]) simp_all
  have f11: "0.855211333316 \<le> lat_0 \<and> lat_0 \<le> 0.855211333484"
    unfolding lat_0_def DegToRad_def by (rule f10)
  have f12: "1.71792 \<le> (1.71792 :: real) \<and> (1.71792 :: real) \<le> 1.71792"
    by simp
  have f13: "5.39700485044 \<le> (1.71792 :: real) * pi \<and> (1.71792 :: real) * pi \<le> 5.39700485148"
    by (rule iv_mul [OF f12 f1]) simp_all
  have f14: "180 \<le> (180 :: real) \<and> (180 :: real) \<le> 180"
    by simp
  have f15: "0.0299833602802 \<le> ((1.71792 :: real) * pi) / (180 :: real) \<and> ((1.71792 :: real) * pi) / (180 :: real) \<le> 0.029983360286"
    by (rule iv_div [OF f13 f14]) simp_all
  have f16: "0.0299833602802 \<le> lon \<and> lon \<le> 0.029983360286"
    unfolding lon_def DegToRad_def by (rule f15)
  have f17: "(- 2) \<le> ((- 2) :: real) \<and> ((- 2) :: real) \<le> (- 2)"
    by simp
  have f18: "(- 6.2831853072) \<le> ((- 2) :: real) * pi \<and> ((- 2) :: real) * pi \<le> (- 6.283185306)"
    by (rule iv_mul [OF f17 f1]) simp_all
  have f19: "180 \<le> (180 :: real) \<and> (180 :: real) \<le> 180"
    by simp
  have f20: "(- 0.03490658504) \<le> (((- 2) :: real) * pi) / (180 :: real) \<and> (((- 2) :: real) * pi) / (180 :: real) \<le> (- 0.0349065850333)"
    by (rule iv_div [OF f18 f19]) simp_all
  have f21: "(- 0.03490658504) \<le> lon_0 \<and> lon_0 \<le> (- 0.0349065850333)"
    unfolding lon_0_def DegToRad_def by (rule f20)
  have f22: "0.063836638938 \<le> lat - lat_0 \<and> lat - lat_0 \<le> 0.06383663929"
    by (rule iv_sub [OF f6 f11]) simp_all
  have f23: "1.77425930573 \<le> lat + lat_0 \<and> lat + lat_0 \<le> 1.77425930609"
    by (rule iv_add [OF f6 f11]) simp_all
  have f24: "0.0648899453135 \<le> lon - lon_0 \<and> lon - lon_0 \<le> 0.064889945326"
    by (rule iv_sub [OF f16 f21]) simp_all
  have f25: "6377563.396 \<le> a \<and> a \<le> 6377563.396"
    unfolding a_def by simp
  have f26: "6356256.909 \<le> b \<and> b \<le> 6356256.909"
    unfolding b_def by simp
  have f27: "0.9996012717 \<le> F0 \<and> F0 \<le> 0.9996012717"
    unfolding F0_def by simp
  have f28: "6377563.396 \<le> a ^ 1 \<and> a ^ 1 \<le> 6377563.396"
    using f25 by simp
  have f29: "40673314869900 \<le> a ^ 2 \<and> a ^ 2 \<le> 40673314870000"
    by (rule iv_power_mul [OF f28 f28]) simp_all
  have f30: "6356256.909 \<le> b ^ 1 \<and> b ^ 1 \<le> 6356256.909"
    using f26 by simp
  have f31: "40402001893200 \<le> b ^ 2 \<and> b ^ 2 \<le> 40402001893300"
    by (rule iv_power_mul [OF f30 f30]) simp_all
  have f32: "271312976600 \<le> (a ^ 2) - (b ^ 2) \<and> (a ^ 2) - (b ^ 2) \<le> 271312976800"
    by (rule iv_sub [OF f29 f31]) simp_all
  have f33: "0.0066705400695 \<le> ((a ^ 2) - (b ^ 2)) / (a ^ 2) \<and> ((a ^ 2) - (b ^ 2)) / (a ^ 2) \<le> 0.00667054007445"
    by (rule iv_div [OF f32 f29]) simp_all
  have f34: "0.0066705400695 \<le> e2 \<and> e2 \<le> 0.00667054007445"
    unfolding e2_def Eccentricity1_def by (rule f33)
  have f35: "21306.487 \<le> a - b \<and> a - b \<le> 21306.487"
    by (rule iv_sub [OF f25 f26]) simp_all
  have f36: "12733820.305 \<le> a + b \<and> a + b \<le> 12733820.305"
    by (rule iv_add [OF f25 f26]) simp_all
  have f37: "0.00167322032898 \<le> (a - b) / (a + b) \<and> (a - b) / (a + b) \<le> 0.00167322032899"
    by (rule iv_div [OF f35 f36]) simp_all
  have f38: "0.00167322032898 \<le> n \<and> n \<le> 0.00167322032899"
    unfolding n_def by (rule f37)
  have f39: "0.919047972422 \<le> lat ^ 1 \<and> lat ^ 1 \<le> 0.919047972606"
    using f6 by simp
  have f40: "0.844649175612 \<le> lat ^ 2 \<and> lat ^ 2 \<le> 0.844649175952"
    by (rule iv_power_mul [OF f39 f39]) simp_all
  have f41: "0.776273112254 \<le> lat ^ 3 \<and> lat ^ 3 \<le> 0.776273112723"
    by (rule iv_power_mul [OF f40 f39]) simp_all
  have f42: "0.655678444315 \<le> lat ^ 5 \<and> lat ^ 5 \<le> 0.655678444976"
    by (rule iv_power_mul [OF f41 f40]) simp_all
  have f43: "0.553818257457 \<le> lat ^ 7 \<and> lat ^ 7 \<le> 0.553818258239"
    by (rule iv_power_mul [OF f42 f40]) simp_all
  have f44: "0.467782134599 \<le> lat ^ 9 \<and> lat ^ 9 \<le> 0.467782135449"
    by (rule iv_power_mul [OF f43 f40]) simp_all
  have f45: "0.395111794355 \<le> lat ^ 11 \<and> lat ^ 11 \<le> 0.395111795233"
    by (rule iv_power_mul [OF f44 f40]) simp_all
  have f46: "0.333730851376 \<le> lat ^ 13 \<and> lat ^ 13 \<le> 0.333730852253"
    by (rule iv_power_mul [OF f45 f40]) simp_all
  have f47: "0.795024501892 \<le> sin lat \<and> sin lat \<le> 0.795024502268"
    by (rule iv_sin_terms [OF f6 _ f41 f42 f43 f44 f45 f46]) simp_all
  have f48: "2 \<le> (2 :: real) \<and> (2 :: real) \<le> 2"
    by simp
  have f49: "0.459523986211 \<le> lat / (2 :: real) \<and> lat / (2 :: real) \<le> 0.459523986303"
    by (rule iv_div [OF f6 f48]) simp_all
  have f50: "0.459523986211 \<le> (lat / (2 :: real)) ^ 1 \<and> (lat / (2 :: real)) ^ 1 \<le> 0.459523986303"
    using f49 by simp
  have f51: "0.211162293903 \<le> (lat / (2 :: real)) ^ 2 \<and> (lat / (2 :: real)) ^ 2 \<le> 0.211162293988"
    by (rule iv_power_mul [OF f50 f50]) simp_all
  have f52: "0.0970341390317 \<le> (lat / (2 :: real)) ^ 3 \<and> (lat / (2 :: real)) ^ 3 \<le> 0.0970341390903"
    by (rule iv_power_mul [OF f51 f50]) simp_all
  have f53: "0.0204899513848 \<le> (lat / (2 :: real)) ^ 5 \<and> (lat / (2 :: real)) ^ 5 \<le> 0.0204899514055"
    by (rule iv_power_mul [OF f52 f51]) simp_all
  have f54: "0.00432670513637 \<le> (lat / (2 :: real)) ^ 7 \<and> (lat / (2 :: real)) ^ 7 \<le> 0.00432670514249"
    by (rule iv_power_mul [OF f53 f51]) simp_all
  have f55: "0.000913636981637 \<le> (lat / (2 :: real)) ^ 9 \<and> (lat / (2 :: real)) ^ 9 \<le> 0.000913636983298"
    by (rule iv_power_mul [OF f54 f51]) simp_all
  have f56: "0.000192925680837 \<le> (lat / (2 :: real)) ^ 11 \<and> (lat / (2 :: real)) ^ 11 \<le> 0.000192925681266"
    by (rule iv_power_mul [OF f55 f51]) simp_all
  have f57: "0.0000407386293183 \<le> (lat / (2 :: real)) ^ 13 \<and> (lat / (2 :: real)) ^ 13 \<le> 0.0000407386294254"
    by (rule iv_power_mul [OF f56 f51]) simp_all
  have f58: "0.44352152333 \<le> sin (lat / (2 :: real)) \<and> sin (lat / (2 :: real)) \<le> 0.443521523433"
    by (rule iv_sin_terms [OF f49 _ f52 f53 f54 f55 f56 f57]) simp_all
  have f59: "1 \<le> (1 :: real) \<and> (1 :: real) \<le> 1"
    by simp
  have f60: "2 \<le> (2 :: real) \<and> (2 :: real) \<le> 2"
    by simp
  have f61: "0.44352152333 \<le> (sin (lat / (2 :: real))) ^ 1 \<and> (sin (lat / (2 :: real))) ^ 1 \<le> 0.443521523433"
    using f58 by simp
  have f62: "0.196711341656 \<le> (sin (lat / (2 :: real))) ^ 2 \<and> (sin (lat / (2 :: real))) ^ 2 \<le> 0.196711341749"
    by (rule iv_power_mul [OF f61 f61]) simp_all
  have f63: "0.393422683312 \<le> (2 :: real) * ((sin (lat / (2 :: real))) ^ 2) \<and> (2 :: real) * ((sin (lat / (2 :: real))) ^ 2) \<le> 0.393422683498"
    by (rule iv_mul [OF f60 f62]) simp_all
  have f64: "0.606577316502 \<le> (1 :: real) - ((2 :: real) * ((sin (lat / (2 :: real))) ^ 2)) \<and> (1 :: real) - ((2 :: real) * ((sin (lat / (2 :: real))) ^ 2)) \<le> 0.606577316688"
    by (rule iv_sub [OF f59 f63]) simp_all
  have f65: "0.606577316502 \<le> cos lat \<and> cos lat \<le> 0.606577316688"
    unfolding cos_half_angle [of "lat"] by (rule f64)
  have f66: "1.31067298433 \<le> (sin lat) / (cos lat) \<and> (sin lat) / (cos lat) \<le> 1.31067298536"
    by (rule iv_div [OF f47 f65]) simp_all
  have f67: "1.31067298433 \<le> tan lat \<and> tan lat \<le> 1.31067298536"
    unfolding tan_def by (rule f66)
  have f68: "1 \<le> (1 :: real) \<and> (1 :: real) \<le> 1"
    by simp
  have f69: "0.795024501892 \<le> (sin lat) ^ 1 \<and> (sin lat) ^ 1 \<le> 0.795024502268"
    using f47 by simp
  have f70: "0.632063958608 \<le> (sin lat) ^ 2 \<and> (sin lat) ^ 2 \<le> 0.632063959207"
    by (rule iv_power_mul [OF f69 f69]) simp_all
  have f71: "0.00421620796238 \<le> e2 * ((sin lat) ^ 2) \<and> e2 * ((sin lat) ^ 2) \<le> 0.00421620796951"
    by (rule iv_mul [OF f34 f70]) simp_all
  have f72: "0.99578379203 \<le> (1 :: real) - (e2 * ((sin lat) ^ 2)) \<and> (1 :: real) - (e2 * ((sin lat) ^ 2)) \<le> 0.995783792038"
    by (rule iv_sub [OF f68 f71]) simp_all
  have Wpos: "0 < (1 :: real) - (e2 * ((sin lat) ^ 2))"
    using f72 by simp
  have f73: "0.997889669267 \<le> sqrt ((1 :: real) - (e2 * ((sin lat) ^ 2))) \<and> sqrt ((1 :: real) - (e2 * ((sin lat) ^ 2))) \<le> 0.997889669272"
    by (rule iv_sqrt [OF f72]) simp_all
  have v_alt: "v = a * F0 * (1 / sqrt ((1 :: real) - (e2 * ((sin lat) ^ 2))))"
    unfolding v_def by (simp only: powr_minus_half [OF Wpos])
  have p_alt: "p = a * F0 * (1 - e2) * (1 / (((1 :: real) - (e2 * ((sin lat) ^ 2))) * sqrt ((1 :: real) - (e2 * ((sin lat) ^ 2)))))"
    unfolding p_def by (simp only: powr_minus_three_halves [OF Wpos])
  have f74: "6375020.48098 \<le> a * F0 \<and> a * F0 \<le> 6375020.48099"
    by (rule iv_mul [OF f25 f27]) simp_all
  have f75: "1 \<le> (1 :: real) \<and> (1 :: real) \<le> 1"
    by simp
  have f76: "1.00211479364 \<le> (1 :: real) / (sqrt ((1 :: real) - (e2 * ((sin lat) ^ 2)))) \<and> (1 :: real) / (sqrt ((1 :: real) - (e2 * ((sin lat) ^ 2)))) \<le> 1.00211479365"
    by (rule iv_div [OF f75 f73]) simp_all
  have f77: "6388502.33374 \<le> (a * F0) * ((1 :: real) / (sqrt ((1 :: real) - (e2 * ((sin lat) ^ 2))))) \<and> (a * F0) * ((1 :: real) / (sqrt ((1 :: real) - (e2 * ((sin lat) ^ 2))))) \<le> 6388502.33383"
    by (rule iv_mul [OF f74 f76]) simp_all
  have f78: "6388502.33374 \<le> v \<and> v \<le> 6388502.33383"
    unfolding v_alt by (rule f77)
  have f79: "1 \<le> (1 :: real) \<and> (1 :: real) \<le> 1"
    by simp
  have f80: "0.993329459925 \<le> (1 :: real) - e2 \<and> (1 :: real) - e2 \<le> 0.993329459931"
    by (rule iv_sub [OF f79 f34]) simp_all
  have f81: "6332495.65138 \<le> (a * F0) * ((1 :: real) - e2) \<and> (a * F0) * ((1 :: real) - e2) \<le> 6332495.65144"
    by (rule iv_mul [OF f74 f80]) simp_all
  have f82: "1 \<le> (1 :: real) \<and> (1 :: real) \<le> 1"
    by simp
  have f83: "0.99368235889 \<le> ((1 :: real) - (e2 * ((sin lat) ^ 2))) * (sqrt ((1 :: real) - (e2 * ((sin lat) ^ 2)))) \<and> ((1 :: real) - (e2 * ((sin lat) ^ 2))) * (sqrt ((1 :: real) - (e2 * ((sin lat) ^ 2)))) \<le> 0.993682358904"
    by (rule iv_mul [OF f72 f73]) simp_all
  have f84: "1.00635780744 \<le> (1 :: real) / (((1 :: real) - (e2 * ((sin lat) ^ 2))) * (sqrt ((1 :: real) - (e2 * ((sin lat) ^ 2))))) \<and> (1 :: real) / (((1 :: real) - (e2 * ((sin lat) ^ 2))) * (sqrt ((1 :: real) - (e2 * ((sin lat) ^ 2))))) \<le> 1.00635780746"
    by (rule iv_div [OF f82 f83]) simp_all
  have f85: "6372756.43934 \<le> ((a * F0) * ((1 :: real) - e2)) * ((1 :: real) / (((1 :: real) - (e2 * ((sin lat) ^ 2))) * (sqrt ((1 :: real) - (e2 * ((sin lat) ^ 2)))))) \<and> ((a * F0) * ((1 :: real) - e2)) * ((1 :: real) / (((1 :: real) - (e2 * ((sin lat) ^ 2))) * (sqrt ((1 :: real) - (e2 * ((sin lat) ^ 2)))))) \<le> 6372756.43954"
    by (rule iv_mul [OF f81 f84]) simp_all
  have f86: "6372756.43934 \<le> p \<and> p \<le> 6372756.43954"
    unfolding p_alt by (rule f85)
  have f87: "1.00247081374 \<le> v / p \<and> v / p \<le> 1.00247081379"
    by (rule iv_div [OF f78 f86]) simp_all
  have f88: "1 \<le> (1 :: real) \<and> (1 :: real) \<le> 1"
    by simp
  have f89: "0.00247081374 \<le> (v / p) - (1 :: real) \<and> (v / p) - (1 :: real) \<le> 0.00247081379"
    by (rule iv_sub [OF f87 f88]) simp_all
  have f90: "0.00247081374 \<le> n2 \<and> n2 \<le> 0.00247081379"
    unfolding n2_def by (rule f89)
  have f91: "0.00167322032898 \<le> n ^ 1 \<and> n ^ 1 \<le> 0.00167322032899"
    using f38 by simp
  have f92: "0.00000279966626931 \<le> n ^ 2 \<and> n ^ 2 \<le> 0.00000279966626935"
    by (rule iv_power_mul [OF f91 f91]) simp_all
  have f93: "0.00000000468445851616 \<le> n ^ 3 \<and> n ^ 3 \<le> 0.00000000468445851627"
    by (rule iv_power_mul [OF f92 f91]) simp_all
  have f94: "5 \<le> (5 :: real) \<and> (5 :: real) \<le> 5"
    by simp
  have f95: "4 \<le> (4 :: real) \<and> (4 :: real) \<le> 4"
    by simp
  have f96: "1.25 \<le> (5 :: real) / (4 :: real) \<and> (5 :: real) / (4 :: real) \<le> 1.25"
    by (rule iv_div [OF f94 f95]) simp_all
  have f97: "1 \<le> (1 :: real) \<and> (1 :: real) \<le> 1"
    by simp
  have f98: "1.00167322032 \<le> (1 :: real) + n \<and> (1 :: real) + n \<le> 1.00167322033"
    by (rule iv_add [OF f97 f38]) simp_all
  have f99: "0.00000349958283663 \<le> ((5 :: real) / (4 :: real)) * (n ^ 2) \<and> ((5 :: real) / (4 :: real)) * (n ^ 2) \<le> 0.00000349958283669"
    by (rule iv_mul [OF f96 f92]) simp_all
  have f100: "1.0016767199 \<le> ((1 :: real) + n) + (((5 :: real) / (4 :: real)) * (n ^ 2)) \<and> ((1 :: real) + n) + (((5 :: real) / (4 :: real)) * (n ^ 2)) \<le> 1.00167671992"
    by (rule iv_add [OF f98 f99]) simp_all
  have f101: "0.0000000058555731452 \<le> ((5 :: real) / (4 :: real)) * (n ^ 3) \<and> ((5 :: real) / (4 :: real)) * (n ^ 3) \<le> 0.00000000585557314534"
    by (rule iv_mul [OF f96 f93]) simp_all
  have f102: "1.00167672575 \<le> (((1 :: real) + n) + (((5 :: real) / (4 :: real)) * (n ^ 2))) + (((5 :: real) / (4 :: real)) * (n ^ 3)) \<and> (((1 :: real) + n) + (((5 :: real) / (4 :: real)) * (n ^ 2))) + (((5 :: real) / (4 :: real)) * (n ^ 3)) \<le> 1.00167672578"
    by (rule iv_add [OF f100 f101]) simp_all
  have f103: "0.0639436754743 \<le> ((((1 :: real) + n) + (((5 :: real) / (4 :: real)) * (n ^ 2))) + (((5 :: real) / (4 :: real)) * (n ^ 3))) * (lat - lat_0) \<and> ((((1 :: real) + n) + (((5 :: real) / (4 :: real)) * (n ^ 2))) + (((5 :: real) / (4 :: real)) * (n ^ 3))) * (lat - lat_0) \<le> 0.0639436758289"
    by (rule iv_mul [OF f102 f22]) simp_all
  have f104: "0.0639436754743 \<le> m1 \<and> m1 \<le> 0.0639436758289"
    unfolding m1_def by (rule f103)
  have f105: "3 \<le> (3 :: real) \<and> (3 :: real) \<le> 3"
    by simp
  have f106: "0.00501966098694 \<le> (3 :: real) * n \<and> (3 :: real) * n \<le> 0.00501966098697"
    by (rule iv_mul [OF f105 f38]) simp_all
  have f107: "3 \<le> (3 :: real) \<and> (3 :: real) \<le> 3"
    by simp
  have f108: "0.00000839899880793 \<le> (3 :: real) * (n ^ 2) \<and> (3 :: real) * (n ^ 2) \<le> 0.00000839899880805"
    by (rule iv_mul [OF f107 f92]) simp_all
  have f109: "0.00502805998574 \<le> ((3 :: real) * n) + ((3 :: real) * (n ^ 2)) \<and> ((3 :: real) * n) + ((3 :: real) * (n ^ 2)) \<le> 0.00502805998578"
    by (rule iv_add [OF f106 f108]) simp_all
  have f110: "21 \<le> (21 :: real) \<and> (21 :: real) \<le> 21"
    by simp
  have f111: "8 \<le> (8 :: real) \<and> (8 :: real) \<le> 8"
    by simp
  have f112: "2.625 \<le> (21 :: real) / (8 :: real) \<and> (21 :: real) / (8 :: real) \<le> 2.625"
    by (rule iv_div [OF f110 f111]) simp_all
  have f113: "0.0000000122967036049 \<le> ((21 :: real) / (8 :: real)) * (n ^ 3) \<and> ((21 :: real) / (8 :: real)) * (n ^ 3) \<le> 0.0000000122967036053"
    by (rule iv_mul [OF f112 f93]) simp_all
  have f114: "0.00502807228244 \<le> (((3 :: real) * n) + ((3 :: real) * (n ^ 2))) + (((21 :: real) / (8 :: real)) * (n ^ 3)) \<and> (((3 :: real) * n) + ((3 :: real) * (n ^ 2))) + (((21 :: real) / (8 :: real)) * (n ^ 3)) \<le> 0.00502807228249"
    by (rule iv_add [OF f109 f113]) simp_all
  have f115: "0.00502807228244 \<le> m2_1 \<and> m2_1 \<le> 0.00502807228249"
    unfolding m2_1_def by (rule f114)
  have f116: "0.063836638938 \<le> (lat - lat_0) ^ 1 \<and> (lat - lat_0) ^ 1 \<le> 0.06383663929"
    using f22 by simp
  have f117: "0.0040751164709 \<le> (lat - lat_0) ^ 2 \<and> (lat - lat_0) ^ 2 \<le> 0.00407511651585"
    by (rule iv_power_mul [OF f116 f116]) simp_all
  have f118: "0.000260141738783 \<le> (lat - lat_0) ^ 3 \<and> (lat - lat_0) ^ 3 \<le> 0.000260141743088"
    by (rule iv_power_mul [OF f117 f116]) simp_all
  have f119: "0.00000106010788448 \<le> (lat - lat_0) ^ 5 \<and> (lat - lat_0) ^ 5 \<le> 0.00000106010791372"
    by (rule iv_power_mul [OF f118 f117]) simp_all
  have f120: "0.00000000432006310097 \<le> (lat - lat_0) ^ 7 \<and> (lat - lat_0) ^ 7 \<le> 0.00000000432006326779"
    by (rule iv_power_mul [OF f119 f117]) simp_all
  have f121: "0.000000000017604760298 \<le> (lat - lat_0) ^ 9 \<and> (lat - lat_0) ^ 9 \<le> 0.0000000000176047611721"
    by (rule iv_power_mul [OF f120 f117]) simp_all
  have f122: "0.0000000000000717414486566 \<le> (lat - lat_0) ^ 11 \<and> (lat - lat_0) ^ 11 \<le> 0.0000000000000717414530101"
    by (rule iv_power_mul [OF f121 f117]) simp_all
  have f123: "0.000000000000000292354759066 \<le> (lat - lat_0) ^ 13 \<and> (lat - lat_0) ^ 13 \<le> 0.000000000000000292354780033"
    by (rule iv_power_mul [OF f122 f117]) simp_all
  have f124: "0.0637932908141 \<le> sin (lat - lat_0) \<and> sin (lat - lat_0) \<le> 0.063793291167"
    by (rule iv_sin_terms [OF f22 _ f118 f119 f120 f121 f122 f123]) simp_all
  have f125: "0.0637932908141 \<le> m2_2 \<and> m2_2 \<le> 0.063793291167"
    unfolding m2_2_def by (rule f124)
  have f126: "2 \<le> (2 :: real) \<and> (2 :: real) \<le> 2"
    by simp
  have f127: "0.887129652865 \<le> (lat + lat_0) / (2 :: real) \<and> (lat + lat_0) / (2 :: real) \<le> 0.887129653045"
    by (rule iv_div [OF f23 f126]) simp_all
  have f128: "0.887129652865 \<le> ((lat + lat_0) / (2 :: real)) ^ 1 \<and> ((lat + lat_0) / (2 :: real)) ^ 1 \<le> 0.887129653045"
    using f127 by simp
  have f129: "0.786999020992 \<le> ((lat + lat_0) / (2 :: real)) ^ 2 \<and> ((lat + lat_0) / (2 :: real)) ^ 2 \<le> 0.786999021312"
    by (rule iv_power_mul [OF f128 f128]) simp_all
  have f130: "0.698170168297 \<le> ((lat + lat_0) / (2 :: real)) ^ 3 \<and> ((lat + lat_0) / (2 :: real)) ^ 3 \<le> 0.698170168724"
    by (rule iv_power_mul [OF f129 f128]) simp_all
  have f131: "0.549459238935 \<le> ((lat + lat_0) / (2 :: real)) ^ 5 \<and> ((lat + lat_0) / (2 :: real)) ^ 5 \<le> 0.549459239496"
    by (rule iv_power_mul [OF f130 f129]) simp_all
  have f132: "0.432423883116 \<le> ((lat + lat_0) / (2 :: real)) ^ 7 \<and> ((lat + lat_0) / (2 :: real)) ^ 7 \<le> 0.432423883735"
    by (rule iv_power_mul [OF f131 f129]) simp_all
  have f133: "0.340317172665 \<le> ((lat + lat_0) / (2 :: real)) ^ 9 \<and> ((lat + lat_0) / (2 :: real)) ^ 9 \<le> 0.340317173292"
    by (rule iv_power_mul [OF f132 f129]) simp_all
  have f134: "0.267829281714 \<le> ((lat + lat_0) / (2 :: real)) ^ 11 \<and> ((lat + lat_0) / (2 :: real)) ^ 11 \<le> 0.267829282317"
    by (rule iv_power_mul [OF f133 f129]) simp_all
  have f135: "0.210781382501 \<le> ((lat + lat_0) / (2 :: real)) ^ 13 \<and> ((lat + lat_0) / (2 :: real)) ^ 13 \<le> 0.210781383063"
    by (rule iv_power_mul [OF f134 f129]) simp_all
  have f136: "0.775261917758 \<le> sin ((lat + lat_0) / (2 :: real)) \<and> sin ((lat + lat_0) / (2 :: real)) \<le> 0.775261918083"
    by (rule iv_sin_terms [OF f127 _ f130 f131 f132 f133 f134 f135]) simp_all
  have f137: "1 \<le> (1 :: real) \<and> (1 :: real) \<le> 1"
    by simp
  have f138: "2 \<le> (2 :: real) \<and> (2 :: real) \<le> 2"
    by simp
  have f139: "0.775261917758 \<le> (sin ((lat + lat_0) / (2 :: real))) ^ 1 \<and> (sin ((lat + lat_0) / (2 :: real))) ^ 1 \<le> 0.775261918083"
    using f136 by simp
  have f140: "0.601031041125 \<le> (sin ((lat + lat_0) / (2 :: real))) ^ 2 \<and> (sin ((lat + lat_0) / (2 :: real))) ^ 2 \<le> 0.60103104163"
    by (rule iv_power_mul [OF f139 f139]) simp_all
  have f141: "1.20206208225 \<le> (2 :: real) * ((sin ((lat + lat_0) / (2 :: real))) ^ 2) \<and> (2 :: real) * ((sin ((lat + lat_0) / (2 :: real))) ^ 2) \<le> 1.20206208326"
    by (rule iv_mul [OF f138 f140]) simp_all
  have f142: "(- 0.20206208326) \<le> (1 :: real) - ((2 :: real) * ((sin ((lat + lat_0) / (2 :: real))) ^ 2)) \<and> (1 :: real) - ((2 :: real) * ((sin ((lat + lat_0) / (2 :: real))) ^ 2)) \<le> (- 0.20206208225)"
    by (rule iv_sub [OF f137 f141]) simp_all
  have f143: "(- 0.20206208326) \<le> cos (lat + lat_0) \<and> cos (lat + lat_0) \<le> (- 0.20206208225)"
    unfolding cos_half_angle [of "lat + lat_0"] by (rule f142)
  have f144: "(- 0.20206208326) \<le> m2_3 \<and> m2_3 \<le> (- 0.20206208225)"
    unfolding m2_3_def by (rule f143)
  have f145: "0.000320757277348 \<le> m2_1 * m2_2 \<and> m2_1 * m2_2 \<le> 0.000320757279126"
    by (rule iv_mul [OF f115 f125]) simp_all
  have f146: "(- 0.0000648128840411) \<le> (m2_1 * m2_2) * m2_3 \<and> (m2_1 * m2_2) * m2_3 \<le> (- 0.0000648128833577)"
    by (rule iv_mul [OF f145 f144]) simp_all
  have f147: "(- 0.0000648128840411) \<le> m2 \<and> m2 \<le> (- 0.0000648128833577)"
    unfolding m2_def by (rule f146)
  have f148: "15 \<le> (15 :: real) \<and> (15 :: real) \<le> 15"
    by simp
  have f149: "8 \<le> (8 :: real) \<and> (8 :: real) \<le> 8"
    by simp
  have f150: "1.875 \<le> (15 :: real) / (8 :: real) \<and> (15 :: real) / (8 :: real) \<le> 1.875"
    by (rule iv_div [OF f148 f149]) simp_all
  have f151: "0.00000524937425495 \<le> ((15 :: real) / (8 :: real)) * (n ^ 2) \<and> ((15 :: real) / (8 :: real)) * (n ^ 2) \<le> 0.00000524937425504"
    by (rule iv_mul [OF f150 f92]) simp_all
  have f152: "0.0000000087833597178 \<le> ((15 :: real) / (8 :: real)) * (n ^ 3) \<and> ((15 :: real) / (8 :: real)) * (n ^ 3) \<le> 0.00000000878335971801"
    by (rule iv_mul [OF f150 f93]) simp_all
  have f153: "0.00000525815761466 \<le> (((15 :: real) / (8 :: real)) * (n ^ 2)) + (((15 :: real) / (8 :: real)) * (n ^ 3)) \<and> (((15 :: real) / (8 :: real)) * (n ^ 2)) + (((15 :: real) / (8 :: real)) * (n ^ 3)) \<le> 0.00000525815761476"
    by (rule iv_add [OF f151 f152]) simp_all
  have f154: "0.00000525815761466 \<le> m3_1 \<and> m3_1 \<le> 0.00000525815761476"
    unfolding m3_1_def by (rule f153)
  have f155: "2 \<le> (2 :: real) \<and> (2 :: real) \<le> 2"
    by simp
  have f156: "0.127673277876 \<le> (2 :: real) * (lat - lat_0) \<and> (2 :: real) * (lat - lat_0) \<le> 0.12767327858"
    by (rule iv_mul [OF f155 f22]) simp_all
  have f157: "0.127673277876 \<le> ((2 :: real) * (lat - lat_0)) ^ 1 \<and> ((2 :: real) * (lat - lat_0)) ^ 1 \<le> 0.12767327858"
    using f156 by simp
  have f158: "0.0163004658836 \<le> ((2 :: real) * (lat - lat_0)) ^ 2 \<and> ((2 :: real) * (lat - lat_0)) ^ 2 \<le> 0.0163004660634"
    by (rule iv_power_mul [OF f157 f157]) simp_all
  have f159: "0.00208113391026 \<le> ((2 :: real) * (lat - lat_0)) ^ 3 \<and> ((2 :: real) * (lat - lat_0)) ^ 3 \<le> 0.0020811339447"
    by (rule iv_power_mul [OF f158 f157]) simp_all
  have f160: "0.0000339234523033 \<le> ((2 :: real) * (lat - lat_0)) ^ 5 \<and> ((2 :: real) * (lat - lat_0)) ^ 5 \<le> 0.000033923453239"
    by (rule iv_power_mul [OF f159 f158]) simp_all
  have f161: "0.000000552968076923 \<le> ((2 :: real) * (lat - lat_0)) ^ 7 \<and> ((2 :: real) * (lat - lat_0)) ^ 7 \<le> 0.000000552968098276"
    by (rule iv_power_mul [OF f160 f158]) simp_all
  have f162: "0.0000000090136372726 \<le> ((2 :: real) * (lat - lat_0)) ^ 9 \<and> ((2 :: real) * (lat - lat_0)) ^ 9 \<le> 0.0000000090136377201"
    by (rule iv_power_mul [OF f161 f158]) simp_all
  have f163: "0.000000000146926486849 \<le> ((2 :: real) * (lat - lat_0)) ^ 11 \<and> ((2 :: real) * (lat - lat_0)) ^ 11 \<le> 0.000000000146926495765"
    by (rule iv_power_mul [OF f162 f158]) simp_all
  have f164: "0.00000000000239497018627 \<le> ((2 :: real) * (lat - lat_0)) ^ 13 \<and> ((2 :: real) * (lat - lat_0)) ^ 13 \<le> 0.00000000000239497035804"
    by (rule iv_power_mul [OF f163 f158]) simp_all
  have f165: "0.127326704804 \<le> sin ((2 :: real) * (lat - lat_0)) \<and> sin ((2 :: real) * (lat - lat_0)) \<le> 0.127326705515"
    by (rule iv_sin_terms [OF f156 _ f159 f160 f161 f162 f163 f164]) simp_all
  have f166: "2 \<le> (2 :: real) \<and> (2 :: real) \<le> 2"
    by simp
  have f167: "0.0408290850832 \<le> (cos (lat + lat_0)) * (cos (lat + lat_0)) \<and> (cos (lat + lat_0)) * (cos (lat + lat_0)) \<le> 0.0408290854914"
    by (rule iv_mul [OF f143 f143]) simp_all
  have f168: "0.0408290850832 \<le> (cos (lat + lat_0)) ^ 2 \<and> (cos (lat + lat_0)) ^ 2 \<le> 0.0408290854914"
    unfolding power2_eq_square by (rule f167)
  have f169: "0.0816581701664 \<le> (2 :: real) * ((cos (lat + lat_0)) ^ 2) \<and> (2 :: real) * ((cos (lat + lat_0)) ^ 2) \<le> 0.0816581709828"
    by (rule iv_mul [OF f166 f168]) simp_all
  have f170: "1 \<le> (1 :: real) \<and> (1 :: real) \<le> 1"
    by simp
  have f171: "(- 0.918341829834) \<le> ((2 :: real) * ((cos (lat + lat_0)) ^ 2)) - (1 :: real) \<and> ((2 :: real) * ((cos (lat + lat_0)) ^ 2)) - (1 :: real) \<le> (- 0.918341829017)"
    by (rule iv_sub [OF f169 f170]) simp_all
  have f172: "(- 0.918341829834) \<le> cos ((2 :: real) * (lat + lat_0)) \<and> cos ((2 :: real) * (lat + lat_0)) \<le> (- 0.918341829017)"
    unfolding cos_double_cos [of "lat + lat_0"] by (rule f171)
  have f173: "(- 0.11692943973) \<le> (sin ((2 :: real) * (lat - lat_0))) * (cos ((2 :: real) * (lat + lat_0))) \<and> (sin ((2 :: real) * (lat - lat_0))) * (cos ((2 :: real) * (lat + lat_0))) \<le> (- 0.116929438972)"
    by (rule iv_mul [OF f165 f172]) simp_all
  have f174: "(- 0.11692943973) \<le> m3_2 \<and> m3_2 \<le> (- 0.116929438972)"
    unfolding m3_2_def by (rule f173)
  have f175: "(- 1) \<le> sin (3 * (lat - lat_0)) * cos (3 * (lat + lat_0)) \<and> sin (3 * (lat - lat_0)) * cos (3 * (lat + lat_0)) \<le> 1"
    by (intro conjI sin_cos_ge_minus_one sin_cos_le_one)
  have m3_3_alt: "m3_3 = ((35 / 24) * n ^ 3) * (sin (3 * (lat - lat_0)) * cos (3 * (lat + lat_0)))"
    unfolding m3_3_def by (rule mult.assoc)
  have f176: "35 \<le> (35 :: real) \<and> (35 :: real) \<le> 35"
    by simp
  have f177: "24 \<le> (24 :: real) \<and> (24 :: real) \<le> 24"
    by simp
  have f178: "1.45833333333 \<le> (35 :: real) / (24 :: real) \<and> (35 :: real) / (24 :: real) \<le> 1.45833333334"
    by (rule iv_div [OF f176 f177]) simp_all
  have f179: "0.00000000683150200271 \<le> ((35 :: real) / (24 :: real)) * (n ^ 3) \<and> ((35 :: real) / (24 :: real)) * (n ^ 3) \<le> 0.00000000683150200293"
    by (rule iv_mul [OF f178 f93]) simp_all
  have f180: "(- 0.00000000683150200293) \<le> (((35 :: real) / (24 :: real)) * (n ^ 3)) * (sin (3 * (lat - lat_0)) * cos (3 * (lat + lat_0))) \<and> (((35 :: real) / (24 :: real)) * (n ^ 3)) * (sin (3 * (lat - lat_0)) * cos (3 * (lat + lat_0))) \<le> 0.00000000683150200293"
    by (rule iv_mul [OF f179 f175]) simp_all
  have f181: "(- 0.00000000683150200293) \<le> m3_3 \<and> m3_3 \<le> 0.00000000683150200293"
    unfolding m3_3_alt by (rule f180)
  have f182: "(- 0.000000614833423906) \<le> m3_1 * m3_2 \<and> m3_1 * m3_2 \<le> (- 0.000000614833419908)"
    by (rule iv_mul [OF f154 f174]) simp_all
  have f183: "(- 0.000000621664925909) \<le> (m3_1 * m3_2) - m3_3 \<and> (m3_1 * m3_2) - m3_3 \<le> (- 0.000000608001917905)"
    by (rule iv_sub [OF f182 f181]) simp_all
  have f184: "(- 0.000000621664925909) \<le> m3 \<and> m3 \<le> (- 0.000000608001917905)"
    unfolding m3_def by (rule f183)
  have f185: "6353722.48948 \<le> b * F0 \<and> b * F0 \<le> 6353722.48949"
    by (rule iv_mul [OF f26 f27]) simp_all
  have f186: "0.0640084883576 \<le> m1 - m2 \<and> m1 - m2 \<le> 0.064008488713"
    by (rule iv_sub [OF f104 f147]) simp_all
  have f187: "0.0640078666926 \<le> (m1 - m2) + m3 \<and> (m1 - m2) + m3 \<le> 0.0640078807111"
    by (rule iv_add [OF f186 f184]) simp_all
  have f188: "406688.222108 \<le> (b * F0) * ((m1 - m2) + m3) \<and> (b * F0) * ((m1 - m2) + m3) \<le> 406688.311179"
    by (rule iv_mul [OF f185 f187]) simp_all
  have f189: "406688.222108 \<le> m \<and> m \<le> 406688.311179"
    unfolding m_def by (rule f188)
  have f190: "(- 100000) \<le> ((- 100000) :: real) \<and> ((- 100000) :: real) \<le> (- 100000)"
    by simp
  have f191: "306688.222108 \<le> m + ((- 100000) :: real) \<and> m + ((- 100000) :: real) \<le> 306688.311179"
    by (rule iv_add [OF f189 f190]) simp_all
  have f192: "306688.222108 \<le> I \<and> I \<le> 306688.311179"
    unfolding I_def by (rule f191)
  have f193: "2 \<le> (2 :: real) \<and> (2 :: real) \<le> 2"
    by simp
  have f194: "3194251.16687 \<le> v / (2 :: real) \<and> v / (2 :: real) \<le> 3194251.16692"
    by (rule iv_div [OF f78 f193]) simp_all
  have f195: "2539507.94285 \<le> (v / (2 :: real)) * (sin lat) \<and> (v / (2 :: real)) * (sin lat) \<le> 2539507.9441"
    by (rule iv_mul [OF f194 f47]) simp_all
  have f196: "1540407.9132 \<le> ((v / (2 :: real)) * (sin lat)) * (cos lat) \<and> ((v / (2 :: real)) * (sin lat)) * (cos lat) \<le> 1540407.91445"
    by (rule iv_mul [OF f195 f65]) simp_all
  have f197: "1540407.9132 \<le> II \<and> II \<le> 1540407.91445"
    unfolding II_def by (rule f196)
  have f198: "1.31067298433 \<le> (tan lat) ^ 1 \<and> (tan lat) ^ 1 \<le> 1.31067298536"
    using f67 by simp
  have f199: "1.71786367185 \<le> (tan lat) ^ 2 \<and> (tan lat) ^ 2 \<le> 1.71786367456"
    by (rule iv_power_mul [OF f198 f198]) simp_all
  have f200: "24 \<le> (24 :: real) \<and> (24 :: real) \<le> 24"
    by simp
  have f201: "266187.597239 \<le> v / (24 :: real) \<and> v / (24 :: real) \<le> 266187.597243"
    by (rule iv_div [OF f78 f200]) simp_all
  have f202: "211625.661904 \<le> (v / (24 :: real)) * (sin lat) \<and> (v / (24 :: real)) * (sin lat) \<le> 211625.662009"
    by (rule iv_mul [OF f201 f47]) simp_all
  have f203: "0.606577316502 \<le> (cos lat) ^ 1 \<and> (cos lat) ^ 1 \<le> 0.606577316688"
    using f65 by simp
  have f204: "0.367936040894 \<le> (cos lat) ^ 2 \<and> (cos lat) ^ 2 \<le> 0.367936041121"
    by (rule iv_power_mul [OF f203 f203]) simp_all
  have f205: "0.223181656329 \<le> (cos lat) ^ 3 \<and> (cos lat) ^ 3 \<le> 0.223181656536"
    by (rule iv_power_mul [OF f204 f203]) simp_all
  have f206: "47230.9657454 \<le> ((v / (24 :: real)) * (sin lat)) * ((cos lat) ^ 3) \<and> ((v / (24 :: real)) * (sin lat)) * ((cos lat) ^ 3) \<le> 47230.9658127"
    by (rule iv_mul [OF f202 f205]) simp_all
  have f207: "5 \<le> (5 :: real) \<and> (5 :: real) \<le> 5"
    by simp
  have f208: "3.28213632544 \<le> (5 :: real) - ((tan lat) ^ 2) \<and> (5 :: real) - ((tan lat) ^ 2) \<le> 3.28213632815"
    by (rule iv_sub [OF f207 f199]) simp_all
  have f209: "9 \<le> (9 :: real) \<and> (9 :: real) \<le> 9"
    by simp
  have f210: "0.02223732366 \<le> (9 :: real) * n2 \<and> (9 :: real) * n2 \<le> 0.02223732411"
    by (rule iv_mul [OF f209 f90]) simp_all
  have f211: "3.3043736491 \<le> ((5 :: real) - ((tan lat) ^ 2)) + ((9 :: real) * n2) \<and> ((5 :: real) - ((tan lat) ^ 2)) + ((9 :: real) * n2) \<le> 3.30437365226"
    by (rule iv_add [OF f208 f210]) simp_all
  have f212: "156068.75863 \<le> (((v / (24 :: real)) * (sin lat)) * ((cos lat) ^ 3)) * (((5 :: real) - ((tan lat) ^ 2)) + ((9 :: real) * n2)) \<and> (((v / (24 :: real)) * (sin lat)) * ((cos lat) ^ 3)) * (((5 :: real) - ((tan lat) ^ 2)) + ((9 :: real) * n2)) \<le> 156068.759003"
    by (rule iv_mul [OF f206 f211]) simp_all
  have f213: "156068.75863 \<le> III \<and> III \<le> 156068.759003"
    unfolding III_def by (rule f212)
  have f214: "0.0821165750298 \<le> (cos lat) ^ 5 \<and> (cos lat) ^ 5 \<le> 0.0821165751567"
    by (rule iv_power_mul [OF f205 f204]) simp_all
  have f215: "0.0821165750298 \<le> Cos5 lat \<and> Cos5 lat \<le> 0.0821165751567"
    unfolding Cos5_def by (rule f214)
  have f216: "1.71786367185 \<le> Tan2 lat \<and> Tan2 lat \<le> 1.71786367456"
    unfolding Tan2_def by (rule f199)
  have f217: "2.95105559506 \<le> (tan lat) ^ 4 \<and> (tan lat) ^ 4 \<le> 2.95105560438"
    by (rule iv_power_mul [OF f199 f199]) simp_all
  have f218: "2.95105559506 \<le> Tan4 lat \<and> Tan4 lat \<le> 2.95105560438"
    unfolding Tan4_def by (rule f217)
  have f219: "720 \<le> (720 :: real) \<and> (720 :: real) \<le> 720"
    by simp
  have f220: "8872.91990797 \<le> v / (720 :: real) \<and> v / (720 :: real) \<le> 8872.9199081"
    by (rule iv_div [OF f78 f219]) simp_all
  have f221: "7054.18873016 \<le> (v / (720 :: real)) * (sin lat) \<and> (v / (720 :: real)) * (sin lat) \<le> 7054.18873361"
    by (rule iv_mul [OF f220 f47]) simp_all
  have f222: "579.265818134 \<le> ((v / (720 :: real)) * (sin lat)) * (Cos5 lat) \<and> ((v / (720 :: real)) * (sin lat)) * (Cos5 lat) \<le> 579.265819314"
    by (rule iv_mul [OF f221 f215]) simp_all
  have f223: "61 \<le> (61 :: real) \<and> (61 :: real) \<le> 61"
    by simp
  have f224: "58 \<le> (58 :: real) \<and> (58 :: real) \<le> 58"
    by simp
  have f225: "99.6360929673 \<le> (58 :: real) * (Tan2 lat) \<and> (58 :: real) * (Tan2 lat) \<le> 99.6360931245"
    by (rule iv_mul [OF f224 f216]) simp_all
  have f226: "(- 38.6360931245) \<le> (61 :: real) - ((58 :: real) * (Tan2 lat)) \<and> (61 :: real) - ((58 :: real) * (Tan2 lat)) \<le> (- 38.6360929673)"
    by (rule iv_sub [OF f223 f225]) simp_all
  have f227: "(- 35.6850375295) \<le> ((61 :: real) - ((58 :: real) * (Tan2 lat))) + (Tan4 lat) \<and> ((61 :: real) - ((58 :: real) * (Tan2 lat))) + (Tan4 lat) \<le> (- 35.6850373629)"
    by (rule iv_add [OF f226 f218]) simp_all
  have f228: "(- 20671.1225018) \<le> (((v / (720 :: real)) * (sin lat)) * (Cos5 lat)) * (((61 :: real) - ((58 :: real) * (Tan2 lat))) + (Tan4 lat)) \<and> (((v / (720 :: real)) * (sin lat)) * (Cos5 lat)) * (((61 :: real) - ((58 :: real) * (Tan2 lat))) + (Tan4 lat)) \<le> (- 20671.1223631)"
    by (rule iv_mul [OF f222 f227]) simp_all
  have f229: "(- 20671.1225018) \<le> IIIA \<and> IIIA \<le> (- 20671.1223631)"
    unfolding IIIA_def by (rule f228)
  have f230: "3875120.60206 \<le> v * (cos lat) \<and> v * (cos lat) \<le> 3875120.60331"
    by (rule iv_mul [OF f78 f65]) simp_all
  have f231: "3875120.60206 \<le> IV \<and> IV \<le> 3875120.60331"
    unfolding IV_def by (rule f230)
  have f232: "6 \<le> (6 :: real) \<and> (6 :: real) \<le> 6"
    by simp
  have f233: "1064750.38895 \<le> v / (6 :: real) \<and> v / (6 :: real) \<le> 1064750.38898"
    by (rule iv_div [OF f78 f232]) simp_all
  have f234: "237632.755382 \<le> (v / (6 :: real)) * ((cos lat) ^ 3) \<and> (v / (6 :: real)) * ((cos lat) ^ 3) \<le> 237632.75561"
    by (rule iv_mul [OF f233 f205]) simp_all
  have f235: "(- 0.71539286082) \<le> (v / p) - ((tan lat) ^ 2) \<and> (v / p) - ((tan lat) ^ 2) \<le> (- 0.71539285806)"
    by (rule iv_sub [OF f87 f199]) simp_all
  have f236: "(- 170000.776861) \<le> ((v / (6 :: real)) * ((cos lat) ^ 3)) * ((v / p) - ((tan lat) ^ 2)) \<and> ((v / (6 :: real)) * ((cos lat) ^ 3)) * ((v / p) - ((tan lat) ^ 2)) \<le> (- 170000.776041)"
    by (rule iv_mul [OF f234 f235]) simp_all
  have f237: "(- 170000.776861) \<le> V \<and> V \<le> (- 170000.776041)"
    unfolding V_def by (rule f236)
  have f238: "120 \<le> (120 :: real) \<and> (120 :: real) \<le> 120"
    by simp
  have f239: "53237.5194478 \<le> v / (120 :: real) \<and> v / (120 :: real) \<le> 53237.5194486"
    by (rule iv_div [OF f78 f238]) simp_all
  have f240: "4371.68276013 \<le> (v / (120 :: real)) * ((cos lat) ^ 5) \<and> (v / (120 :: real)) * ((cos lat) ^ 5) \<le> 4371.68276696"
    by (rule iv_mul [OF f239 f214]) simp_all
  have f241: "5 \<le> (5 :: real) \<and> (5 :: real) \<le> 5"
    by simp
  have f242: "18 \<le> (18 :: real) \<and> (18 :: real) \<le> 18"
    by simp
  have f243: "30.9215460933 \<le> (18 :: real) * (Tan2 lat) \<and> (18 :: real) * (Tan2 lat) \<le> 30.9215461421"
    by (rule iv_mul [OF f242 f216]) simp_all
  have f244: "(- 25.9215461421) \<le> (5 :: real) - ((18 :: real) * (Tan2 lat)) \<and> (5 :: real) - ((18 :: real) * (Tan2 lat)) \<le> (- 25.9215460933)"
    by (rule iv_sub [OF f241 f243]) simp_all
  have f245: "(- 22.9704905471) \<le> ((5 :: real) - ((18 :: real) * (Tan2 lat))) + (Tan4 lat) \<and> ((5 :: real) - ((18 :: real) * (Tan2 lat))) + (Tan4 lat) \<le> (- 22.9704904889)"
    by (rule iv_add [OF f244 f218]) simp_all
  have f246: "14 \<le> (14 :: real) \<and> (14 :: real) \<le> 14"
    by simp
  have f247: "0.03459139236 \<le> (14 :: real) * n2 \<and> (14 :: real) * n2 \<le> 0.03459139306"
    by (rule iv_mul [OF f246 f90]) simp_all
  have f248: "(- 22.9358991548) \<le> (((5 :: real) - ((18 :: real) * (Tan2 lat))) + (Tan4 lat)) + ((14 :: real) * n2) \<and> (((5 :: real) - ((18 :: real) * (Tan2 lat))) + (Tan4 lat)) + ((14 :: real) * n2) \<le> (- 22.9358990958)"
    by (rule iv_add [OF f245 f247]) simp_all
  have f249: "58 \<le> (58 :: real) \<and> (58 :: real) \<le> 58"
    by simp
  have f250: "99.6360929673 \<le> (58 :: real) * (Tan2 lat) \<and> (58 :: real) * (Tan2 lat) \<le> 99.6360931245"
    by (rule iv_mul [OF f249 f216]) simp_all
  have f251: "0.246182227503 \<le> ((58 :: real) * (Tan2 lat)) * n2 \<and> ((58 :: real) * (Tan2 lat)) * n2 \<le> 0.246182232874"
    by (rule iv_mul [OF f250 f90]) simp_all
  have f252: "(- 23.1820813877) \<le> ((((5 :: real) - ((18 :: real) * (Tan2 lat))) + (Tan4 lat)) + ((14 :: real) * n2)) - (((58 :: real) * (Tan2 lat)) * n2) \<and> ((((5 :: real) - ((18 :: real) * (Tan2 lat))) + (Tan4 lat)) + ((14 :: real) * n2)) - (((58 :: real) * (Tan2 lat)) * n2) \<le> (- 23.1820813233)"
    by (rule iv_sub [OF f248 f251]) simp_all
  have f253: "(- 101344.705705) \<le> ((v / (120 :: real)) * ((cos lat) ^ 5)) * (((((5 :: real) - ((18 :: real) * (Tan2 lat))) + (Tan4 lat)) + ((14 :: real) * n2)) - (((58 :: real) * (Tan2 lat)) * n2)) \<and> ((v / (120 :: real)) * ((cos lat) ^ 5)) * (((((5 :: real) - ((18 :: real) * (Tan2 lat))) + (Tan4 lat)) + ((14 :: real) * n2)) - (((58 :: real) * (Tan2 lat)) * n2)) \<le> (- 101344.705265)"
    by (rule iv_mul [OF f240 f252]) simp_all
  have f254: "(- 101344.705705) \<le> VI \<and> VI \<le> (- 101344.705265)"
    unfolding VI_def by (rule f253)
  have f255: "0.0648899453135 \<le> (lon - lon_0) ^ 1 \<and> (lon - lon_0) ^ 1 \<le> 0.064889945326"
    using f24 by simp
  have f256: "0.00421070500278 \<le> (lon - lon_0) ^ 2 \<and> (lon - lon_0) ^ 2 \<le> 0.00421070500442"
    by (rule iv_power_mul [OF f255 f255]) simp_all
  have f257: "6486.20330643 \<le> II * ((lon - lon_0) ^ 2) \<and> II * ((lon - lon_0) ^ 2) \<le> 6486.20331423"
    by (rule iv_mul [OF f197 f256]) simp_all
  have f258: "313174.425414 \<le> I + (II * ((lon - lon_0) ^ 2)) \<and> I + (II * ((lon - lon_0) ^ 2)) \<le> 313174.514494"
    by (rule iv_add [OF f192 f257]) simp_all
  have f259: "0.0000177300366204 \<le> (lon - lon_0) ^ 4 \<and> (lon - lon_0) ^ 4 \<le> 0.0000177300366343"
    by (rule iv_power_mul [OF f256 f256]) simp_all
  have f260: "2.76710480581 \<le> III * ((lon - lon_0) ^ 4) \<and> III * ((lon - lon_0) ^ 4) \<le> 2.7671048146"
    by (rule iv_mul [OF f213 f259]) simp_all
  have f261: "313177.192518 \<le> (I + (II * ((lon - lon_0) ^ 2))) + (III * ((lon - lon_0) ^ 4)) \<and> (I + (II * ((lon - lon_0) ^ 2))) + (III * ((lon - lon_0) ^ 4)) \<le> 313177.281599"
    by (rule iv_add [OF f258 f260]) simp_all
  have f262: "0.0000000746559538969 \<le> (lon - lon_0) ^ 6 \<and> (lon - lon_0) ^ 6 \<le> 0.0000000746559539846"
    by (rule iv_power_mul [OF f259 f256]) simp_all
  have f263: "(- 0.00154322237031) \<le> IIIA * ((lon - lon_0) ^ 6) \<and> IIIA * ((lon - lon_0) ^ 6) \<le> (- 0.00154322235813)"
    by (rule iv_mul [OF f229 f262]) simp_all
  have f264: "313177.190974 \<le> ((I + (II * ((lon - lon_0) ^ 2))) + (III * ((lon - lon_0) ^ 4))) + (IIIA * ((lon - lon_0) ^ 6)) \<and> ((I + (II * ((lon - lon_0) ^ 2))) + (III * ((lon - lon_0) ^ 4))) + (IIIA * ((lon - lon_0) ^ 6)) \<le> 313177.280056"
    by (rule iv_add [OF f261 f263]) simp_all
  have f265: "313177.190974 \<le> N \<and> N \<le> 313177.280056"
    unfolding N_def by (rule f264)
  have f266: "400000 \<le> (400000 :: real) \<and> (400000 :: real) \<le> 400000"
    by simp
  have f267: "251456.36395 \<le> IV * (lon - lon_0) \<and> IV * (lon - lon_0) \<le> 251456.364081"
    by (rule iv_mul [OF f231 f24]) simp_all
  have f268: "651456.36395 \<le> (400000 :: real) + (IV * (lon - lon_0)) \<and> (400000 :: real) + (IV * (lon - lon_0)) \<le> 651456.364081"
    by (rule iv_add [OF f266 f267]) simp_all
  have f269: "0.000273232417361 \<le> (lon - lon_0) ^ 3 \<and> (lon - lon_0) ^ 3 \<le> 0.000273232417521"
    by (rule iv_power_mul [OF f256 f255]) simp_all
  have f270: "(- 46.4497232422) \<le> V * ((lon - lon_0) ^ 3) \<and> V * ((lon - lon_0) ^ 3) \<le> (- 46.4497229909)"
    by (rule iv_mul [OF f237 f269]) simp_all
  have f271: "0.0000011505011067 \<le> (lon - lon_0) ^ 5 \<and> (lon - lon_0) ^ 5 \<le> 0.00000115050110783"
    by (rule iv_power_mul [OF f269 f256]) simp_all
  have f272: "(- 0.116597196187) \<le> VI * ((lon - lon_0) ^ 5) \<and> VI * ((lon - lon_0) ^ 5) \<le> (- 0.116597195565)"
    by (rule iv_mul [OF f254 f271]) simp_all
  have f273: "(- 46.5663204384) \<le> (V * ((lon - lon_0) ^ 3)) + (VI * ((lon - lon_0) ^ 5)) \<and> (V * ((lon - lon_0) ^ 3)) + (VI * ((lon - lon_0) ^ 5)) \<le> (- 46.5663201864)"
    by (rule iv_add [OF f270 f272]) simp_all
  have f274: "651409.797629 \<le> ((400000 :: real) + (IV * (lon - lon_0))) + ((V * ((lon - lon_0) ^ 3)) + (VI * ((lon - lon_0) ^ 5))) \<and> ((400000 :: real) + (IV * (lon - lon_0))) + ((V * ((lon - lon_0) ^ 3)) + (VI * ((lon - lon_0) ^ 5))) \<le> 651409.797761"
    by (rule iv_add [OF f268 f273]) simp_all
  have f275: "651409.797629 \<le> E \<and> E \<le> 651409.797761"
    unfolding E_def by (rule f274)
  have "\<bar>E - 651409.903\<bar> < 1" using f275 by (simp add: abs_less_iff)
  moreover have "\<bar>N - 313177.270\<bar> < 1" using f265 by (simp add: abs_less_iff)
  ultimately show ?thesis
    unfolding EN fst_conv snd_conv by (rule conjI)
qed

end
